theory Spec2Isabelle
  imports Main "HOL-Library.Log_Nat" "HOL-Library.AList"
begin

section \<open>CloudDeploy: the deployment orchestration engine of server.js\<close>

text \<open>
  The development embeds the current \<^verbatim>\<open>server.js\<close> (the first of the two
  versions the file holds): the port allocator, the admission check, the input validators,
  the tunnel provisioner, the four creation handlers, the deletion handler and the startup
  reconciliation.

  Conventions of the embedding.
  \<^item> The three module-level collections (\<^verbatim>\<open>deployments\<close>, \<^verbatim>\<open>tunnels\<close>,
    \<^verbatim>\<open>usedPorts\<close>) and the persisted table form one state record that every handler
    takes and returns. A JavaScript \<^verbatim>\<open>Map\<close> is an association list in insertion order
    (\<^verbatim>\<open>set\<close> is \<open>AList.update\<close>, \<^verbatim>\<open>get\<close> is \<open>map_of\<close>, \<^verbatim>\<open>delete\<close> is
    \<open>AList.delete\<close>, \<^verbatim>\<open>size\<close> is the length); the \<^verbatim>\<open>Set\<close> of used ports is a set.
  \<^item> Everything outside the process (the container engine, the tunnel subprocess, the file
    system, the database driver, \<^verbatim>\<open>uuidv4\<close>, \<^verbatim>\<open>Math.random\<close>, the clock) is an input:
    every handler takes an environment record that says how each external call it makes
    turns out (a value, or that it raises). The calls a handler makes to the outside are
    returned as a trace of actions, in the order they are made.
  \<^item> Every \<^verbatim>\<open>throw\<close> and every \<^verbatim>\<open>try/catch\<close> of the source is a branch of the model; an
    HTTP response is a value of the type \<open>response\<close>.
  \<^item> A handler is one step: it runs from the request to the response without another
    handler running in between. The detached tunnel continuation of the image and git
    handlers is an operation of its own (\<open>tunnel_task\<close>) that runs after the handler;
    the handler's trace marks its start with \<open>TunnelTask\<close>. The broadcast of progress
    events over the WebSocket channel and the readiness probe \<^verbatim>\<open>waitForContainer\<close>
    (whose result is only logged) are not part of the model.
  \<^item> The association lists keep distinct keys as long as they start empty and change
    through these operations only, which is when the length is the \<^verbatim>\<open>size\<close> of the map.
\<close>

subsection \<open>Math.random and the port formula, in binary64 arithmetic\<close>

text \<open>
  \<^verbatim>\<open>Math.floor(Math.random() * (9999 - 5000) + 5000)\<close> is computed in IEEE 754 binary64.
  A draw of \<^verbatim>\<open>Math.random()\<close> is modelled by its numerator \<open>k\<close> over \<open>2^53\<close>: the
  value \<open>k / 2^53\<close> with \<open>k < 2^53\<close>, which covers every double in \<open>[0, 1)\<close> that is a
  multiple of \<open>2^-53\<close> (the generators of the JavaScript engines return multiples of
  \<open>2^-52\<close> or of \<open>2^-53\<close>). All intermediate values are then integer multiples of
  \<open>2^-53\<close>, and are kept as that integer.

  \<open>round53 n\<close> rounds the natural number \<open>n\<close> to 53 significant bits, to nearest, ties to
  even: the rounding of binary64 on the value \<open>n / 2^53\<close> (no value here is subnormal or
  overflows).
\<close>

definition round53 :: "nat \<Rightarrow> nat" where
  "round53 n =
     (let s = nat (bitlen (int n)) - 53;
          q = n div 2 ^ s;
          r = n mod 2 ^ s
      in if 2 * r < 2 ^ s then q * 2 ^ s
         else if 2 ^ s < 2 * r then (q + 1) * 2 ^ s
         else if even q then q * 2 ^ s
         else (q + 1) * 2 ^ s)"

text \<open>
  The product \<^verbatim>\<open>Math.random() * 4999\<close> is rounded, then the sum with \<^verbatim>\<open>5000\<close> is
  rounded, then \<^verbatim>\<open>Math.floor\<close> takes the integer part.
\<close>

definition random_port :: "nat \<Rightarrow> nat" where
  "random_port k = round53 (round53 (k * (9999 - 5000)) + 5000 * 2 ^ 53) div 2 ^ 53"

subsection \<open>The port allocator\<close>

text \<open>
  A call that may raise returns an \<open>outcome\<close>: \<open>Inl\<close> the message of the error thrown,
  \<open>Inr\<close> the value.

  \<^verbatim>\<open>getRandomPort\<close>: the \<^verbatim>\<open>while (attempts < 100)\<close> loop. \<open>rnd i\<close> is the draw of
  \<^verbatim>\<open>Math.random()\<close> in iteration \<open>i\<close>. The result is the error message of the
  \<^verbatim>\<open>throw\<close>, or the port together with the updated set.
\<close>

type_synonym 'a outcome = "string + 'a"

function getRandomPort_loop :: "(nat \<Rightarrow> nat) \<Rightarrow> nat set \<Rightarrow> nat \<Rightarrow> (nat \<times> nat set) outcome" where
  "getRandomPort_loop rnd used attempts =
     (if attempts < 100 then
        (let port = random_port (rnd attempts)
         in if port \<notin> used then Inr (port, insert port used)
            else getRandomPort_loop rnd used (attempts + 1))
      else Inl ''Unable to find available port'')"
  by pat_completeness auto
termination
  by (relation "measure (\<lambda>(rnd, used, attempts). 100 - attempts)") auto

declare getRandomPort_loop.simps [simp del]

definition getRandomPort :: "(nat \<Rightarrow> nat) \<Rightarrow> nat set \<Rightarrow> (nat \<times> nat set) outcome" where
  "getRandomPort rnd used = getRandomPort_loop rnd used 0"

text \<open>
  \<^verbatim>\<open>releasePort\<close>: \<^verbatim>\<open>if (port) usedPorts.delete(port)\<close>. The port is a number; \<open>0\<close>
  is the falsy one.
\<close>

definition releasePort :: "nat \<Rightarrow> nat set \<Rightarrow> nat set" where
  "releasePort port used = (if port \<noteq> 0 then used - {port} else used)"

subsection \<open>Data model\<close>

text \<open>
  The deployment object the handlers build. \<open>dep_hostPort\<close> and \<open>dep_buildDir\<close> are
  \<open>None\<close> where the object has no such field (\<^verbatim>\<open>undefined\<close>).
\<close>

record deployment =
  dep_id :: string
  dep_url :: string
  dep_localUrl :: string
  dep_container :: string
  dep_status :: string
  dep_type :: string
  dep_source :: string
  dep_hasPublicUrl :: bool
  dep_hostPort :: "nat option"
  dep_buildDir :: "string option"
  dep_createdAt :: string

text \<open>The entry of the \<^verbatim>\<open>tunnels\<close> map; the process handle is the process id.\<close>

record tunnel =
  tunnel_url :: string
  tunnel_process :: nat

text \<open>
  A row of the table \<^verbatim>\<open>deployments\<close>, with the columns the only \<^verbatim>\<open>INSERT\<close> of the
  program writes (none of them null).
\<close>

record row =
  row_id :: string
  row_url :: string
  row_localUrl :: string
  row_container_id :: string
  row_status :: string
  row_type :: string
  row_source :: string
  row_created_at :: string

text \<open>
  The state: the three module-level collections and the database (\<open>None\<close> when \<^verbatim>\<open>db\<close>
  is undefined because no connection was made, else the rows of the table).
\<close>

record state =
  deployments :: "(string \<times> deployment) list"
  tunnels :: "(string \<times> tunnel) list"
  usedPorts :: "nat set"
  db :: "row list option"

text \<open>Events of the tunnel subprocess and of the timer, as the listeners receive them.\<close>

datatype proc_event =
    Data string
  | Timeout
  | ProcError string
  | Exit "int option"

text \<open>The calls made to the outside of the process, as they appear in a trace.\<close>

datatype action =
    DockerPull string
  | DockerBuild string
  | GitClone string string
  | CreateContainer string string nat
  | ContainerStart string
  | ContainerInspect string
  | ContainerLogs string nat
  | ContainerStop string nat
  | ContainerRemove string bool
  | SpawnTunnel nat
  | KillProcess nat
  | TunnelTask nat string
  | RmDir string
  | RmDirLater string
  | Unlink string
  | UnlinkLater string
  | DbSelect
  | DbInsert string
  | DbUpdateUrl string string
  | DbDelete string

text \<open>
  The environment of one handler run: the outcome of every external call it may make.
  \<open>parseInt\<close> is the JavaScript builtin (\<open>None\<close> is \<^verbatim>\<open>NaN\<close>); \<open>uuid\<close> is
  \<^verbatim>\<open>uuidv4().substring(0, 8)\<close>; \<open>now\<close> is \<^verbatim>\<open>new Date().toISOString()\<close>;
  \<open>ensure_dir\<close> is the \<^verbatim>\<open>existsSync/mkdirSync\<close> pair on the deployments directory;
  \<open>proc_events\<close> are the events the spawned tunnel process and its timer deliver.
\<close>

record env =
  uuid :: string
  random :: "nat \<Rightarrow> nat"
  now :: string
  parseInt :: "string \<Rightarrow> int option"
  dirname :: string
  docker_pull :: "unit outcome"
  docker_build :: "unit outcome"
  git_clone :: "unit outcome"
  ensure_dir :: "unit outcome"
  createContainer :: "string outcome"
  container_start :: "unit outcome"
  container_inspect :: "string \<Rightarrow> bool outcome"
  container_logs :: "string outcome"
  container_stop :: "unit outcome"
  container_remove :: "unit outcome"
  spawn :: "nat outcome"
  proc_events :: "proc_event list"
  kill :: "unit outcome"
  existsSync :: "string \<Rightarrow> bool"
  rmSync :: "unit outcome"
  unlinkSync :: "unit outcome"
  sql_select :: "unit outcome"
  sql_insert :: "unit outcome"
  sql_update :: "unit outcome"
  sql_delete :: "string \<Rightarrow> unit outcome"

text \<open>
  The request: the fields of the JSON body and the uploaded file (\<open>None\<close> when absent;
  for \<open>body_image\<close> and \<open>body_repo\<close> also when the value is not a string).
\<close>

record request =
  body_image :: "string option"
  body_repo :: "string option"
  body_port :: "string option"
  req_file :: "string option"

text \<open>
  The responses: \<open>Created deploymentId url\<close> is
  \<^verbatim>\<open>res.json({ success: true, deploymentId, url })\<close>; \<open>Deleted warnings\<close> is
  \<^verbatim>\<open>res.json({ success: true, warnings })\<close> (without the field when the list is empty);
  \<open>Error_json code message\<close> is \<^verbatim>\<open>res.status(code).json({ error: message })\<close>;
  \<open>Start_failed logs\<close> is the status 500 with
  \<^verbatim>\<open>{ error: 'Container failed to start', logs }\<close>; \<open>No_response\<close> is a handler
  that waits on a promise that never settles.
\<close>

datatype response =
    Created string string
  | Deleted "string list"
  | Error_json nat string
  | Start_failed string
  | No_response

subsection \<open>Strings\<close>

text \<open>The decimal digits of a number, as a template literal prints it.\<close>

fun string_of_nat :: "nat \<Rightarrow> string" where
  "string_of_nat n =
     (if n < 10 then [''0123456789'' ! n]
      else string_of_nat (n div 10) @ [''0123456789'' ! (n mod 10)])"

declare string_of_nat.simps [simp del]

definition localhost_url :: "nat \<Rightarrow> string" where
  "localhost_url p = ''http://localhost:'' @ string_of_nat p"

text \<open>\<^verbatim>\<open>String.prototype.includes\<close>.\<close>

fun str_includes :: "string \<Rightarrow> string \<Rightarrow> bool" where
  "str_includes [] sub = (sub = [])"
| "str_includes (c # cs) sub = (take (length sub) (c # cs) = sub \<or> str_includes cs sub)"

subsection \<open>Input validation and admission\<close>

definition alnum :: "char \<Rightarrow> bool" where
  "alnum c = (c \<in> set ''abcdefghijklmnopqrstuvwxyzABCDEFGHIJKLMNOPQRSTUVWXYZ0123456789'')"

text \<open>The classes \<^verbatim>\<open>[a-zA-Z0-9._\/-]\<close> and \<^verbatim>\<open>[a-zA-Z0-9._-]\<close> of the image pattern.\<close>

definition name_char :: "char \<Rightarrow> bool" where
  "name_char c = (alnum c \<or> c \<in> set ''._/-'')"

definition tag_char :: "char \<Rightarrow> bool" where
  "tag_char c = (alnum c \<or> c \<in> set ''._-'')"

text \<open>
  \<^verbatim>\<open>/^[a-zA-Z0-9._\/-]+:[a-zA-Z0-9._-]+$|^[a-zA-Z0-9._\/-]+$/\<close>. A colon is in neither
  class, so the first alternative splits the string at its first colon.
\<close>

definition imageRegex_test :: "string \<Rightarrow> bool" where
  "imageRegex_test s =
     (let n = takeWhile (\<lambda>c. c \<noteq> CHR '':'') s;
          r = dropWhile (\<lambda>c. c \<noteq> CHR '':'') s
      in (n \<noteq> [] \<and> list_all name_char n \<and>
            (case r of [] \<Rightarrow> False | _ # t \<Rightarrow> t \<noteq> [] \<and> list_all tag_char t))
         \<or> (s \<noteq> [] \<and> list_all name_char s))"

definition validateDockerImage :: "string option \<Rightarrow> bool" where
  "validateDockerImage img =
     (case img of
        None \<Rightarrow> False
      | Some i \<Rightarrow> i \<noteq> [] \<and> imageRegex_test i \<and> length i < 256)"

definition validatePort :: "(string \<Rightarrow> int option) \<Rightarrow> string \<Rightarrow> bool" where
  "validatePort parse p =
     (case parse p of
        None \<Rightarrow> False
      | Some portNum \<Rightarrow> 0 < portNum \<and> portNum \<le> 65535)"

text \<open>
  \<^verbatim>\<open>/^(https?:\/\/|git@)[\w\.-]+[\/:]([\w\.-]+\/)*[\w\.-]+(\.git)?$/\<close>. The class
  \<^verbatim>\<open>[\w\.-]\<close> holds neither \<^verbatim>\<open>/\<close> nor \<^verbatim>\<open>:\<close>, so after the scheme the string is
  a first segment, one \<^verbatim>\<open>/\<close> or \<^verbatim>\<open>:\<close>, and then segments separated by \<^verbatim>\<open>/\<close>, all
  of them non-empty words of the class; the optional \<^verbatim>\<open>.git\<close> is itself a word of the
  class.
\<close>

definition word_char :: "char \<Rightarrow> bool" where
  "word_char c = (alnum c \<or> c \<in> set ''_.-'')"

function segments_ok :: "string \<Rightarrow> bool" where
  "segments_ok s =
     (let seg = takeWhile word_char s; r = dropWhile word_char s
      in seg \<noteq> [] \<and>
         (case r of
            [] \<Rightarrow> True
          | c # t \<Rightarrow> c = CHR ''/'' \<and> segments_ok t))"
  by pat_completeness auto
termination
proof (relation "measure length")
  show "wf (measure length)" by simp
next
  fix s :: string and seg r c t
  assume "r = dropWhile word_char s" and "r = c # t"
  then have "length (c # t) \<le> length s"
    by (metis length_dropWhile_le)
  then show "(t, s) \<in> measure length" by simp
qed

declare segments_ok.simps [simp del]

definition strip_scheme :: "string \<Rightarrow> string option" where
  "strip_scheme s =
     (if take 8 s = ''https://'' then Some (drop 8 s)
      else if take 7 s = ''http://'' then Some (drop 7 s)
      else if take 4 s = ''git@'' then Some (drop 4 s)
      else None)"

definition repoRegex_test :: "string \<Rightarrow> bool" where
  "repoRegex_test s =
     (case strip_scheme s of
        None \<Rightarrow> False
      | Some rest \<Rightarrow>
          (let seg = takeWhile word_char rest; r = dropWhile word_char rest
           in seg \<noteq> [] \<and>
              (case r of
                 [] \<Rightarrow> False
               | c # t \<Rightarrow> (c = CHR ''/'' \<or> c = CHR '':'') \<and> segments_ok t)))"

definition validateGitRepo :: "string option \<Rightarrow> bool" where
  "validateGitRepo r =
     (case r of
        None \<Rightarrow> False
      | Some u \<Rightarrow> u \<noteq> [] \<and> repoRegex_test u \<and> length u < 512)"

text \<open>
  \<^verbatim>\<open>checkDeploymentLimit\<close>: \<open>MAX_DEPLOYMENTS\<close> is the configured maximum, a parameter of
  every handler.
\<close>

definition limit_message :: "nat \<Rightarrow> string" where
  "limit_message MAX_DEPLOYMENTS =
     ''Deployment limit reached ('' @ string_of_nat MAX_DEPLOYMENTS @
     ''). Please delete some deployments first.''"

definition checkDeploymentLimit :: "nat \<Rightarrow> (string \<times> deployment) list \<Rightarrow> unit outcome" where
  "checkDeploymentLimit MAX_DEPLOYMENTS deps =
     (if length deps \<ge> MAX_DEPLOYMENTS
      then Inl (limit_message MAX_DEPLOYMENTS)
      else Inr ())"

subsection \<open>The tunnel provisioner\<close>

text \<open>
  \<^verbatim>\<open>output.match(/https:\/\/[a-z0-9-]+\.trycloudflare\.com/)\<close>: the leftmost match.
  The class holds no dot, so at a given start the host is the longest run of class
  characters, and \<open>match_here\<close> is the match that starts at the head of its argument.
\<close>

definition host_char :: "char \<Rightarrow> bool" where
  "host_char c = (c \<in> set ''abcdefghijklmnopqrstuvwxyz0123456789-'')"

definition match_here :: "string \<Rightarrow> string option" where
  "match_here s =
     (if take 8 s = ''https://'' then
        (let h = takeWhile host_char (drop 8 s);
             t = dropWhile host_char (drop 8 s)
         in if h \<noteq> [] \<and> take 18 t = ''.trycloudflare.com''
            then Some (''https://'' @ h @ ''.trycloudflare.com'')
            else None)
      else None)"

fun find_url :: "string \<Rightarrow> string option" where
  "find_url [] = None"
| "find_url (c # cs) =
     (case match_here (c # cs) of
        Some u \<Rightarrow> Some u
      | None \<Rightarrow> find_url cs)"

text \<open>
  The promise \<^verbatim>\<open>createPublicTunnel\<close> returns, and the variables of the executor's
  closure: the accumulated \<^verbatim>\<open>output\<close>, the flag \<^verbatim>\<open>resolved\<close>, whether the timer set
  by \<^verbatim>\<open>setTimeout\<close> is still pending, and the state of the promise.
\<close>

datatype promise = Pending | Fulfilled "string option" | Rejected string

record tunnel_run =
  run_output :: string
  run_resolved :: bool
  run_timer :: bool
  run_promise :: promise

text \<open>\<^verbatim>\<open>resolve(v)\<close>: settles a pending promise and does nothing to a settled one.\<close>

definition resolve :: "string option \<Rightarrow> tunnel_run \<Rightarrow> tunnel_run" where
  "resolve v run = (if run_promise run = Pending then run\<lparr>run_promise := Fulfilled v\<rparr> else run)"

text \<open>
  One event, given to the listener registered for it: the timer's callback (it runs only
  while the timer is pending), \<^verbatim>\<open>checkForUrl\<close> for data on either stream, the
  \<^verbatim>\<open>'error'\<close> listener and the \<^verbatim>\<open>'exit'\<close> listener (which only logs).
\<close>

fun tunnel_event ::
  "string \<Rightarrow> nat \<Rightarrow> tunnel_run \<times> (string \<times> tunnel) list \<times> action list \<Rightarrow> proc_event \<Rightarrow>
   tunnel_run \<times> (string \<times> tunnel) list \<times> action list" where
  "tunnel_event deployId pid (run, tuns, tr) Timeout =
     (if run_timer run then
        (if \<not> run_resolved run
         then (resolve None (run\<lparr>run_timer := False\<rparr>), tuns, tr @ [KillProcess pid])
         else (run\<lparr>run_timer := False\<rparr>, tuns, tr))
      else (run, tuns, tr))"
| "tunnel_event deployId pid (run, tuns, tr) (Data d) =
     (let run1 = run\<lparr>run_output := run_output run @ d\<rparr>
      in case find_url (run_output run1) of
           None \<Rightarrow> (run1, tuns, tr)
         | Some tunnelUrl \<Rightarrow>
             (if \<not> run_resolved run1
              then (resolve (Some tunnelUrl) (run1\<lparr>run_resolved := True, run_timer := False\<rparr>),
                    AList.update deployId \<lparr>tunnel_url = tunnelUrl, tunnel_process = pid\<rparr> tuns,
                    tr)
              else (run1, tuns, tr)))"
| "tunnel_event deployId pid (run, tuns, tr) (ProcError e) =
     (resolve None (run\<lparr>run_timer := False\<rparr>), tuns, tr)"
| "tunnel_event deployId pid (run, tuns, tr) (Exit code) = (run, tuns, tr)"

definition run_tunnel ::
  "proc_event list \<Rightarrow> string \<Rightarrow> nat \<Rightarrow> (string \<times> tunnel) list \<Rightarrow> action list \<Rightarrow>
   tunnel_run \<times> (string \<times> tunnel) list \<times> action list" where
  "run_tunnel events deployId pid tuns tr =
     foldl (tunnel_event deployId pid)
       (\<lparr>run_output = [], run_resolved = False, run_timer = True, run_promise = Pending\<rparr>, tuns, tr) events"

text \<open>
  \<^verbatim>\<open>createPublicTunnel(port, deployId)\<close>: a \<^verbatim>\<open>spawn\<close> that throws is caught and gives
  \<^verbatim>\<open>null\<close>; otherwise the promise is what the events make of it.
\<close>

definition createPublicTunnel ::
  "env \<Rightarrow> nat \<Rightarrow> string \<Rightarrow> (string \<times> tunnel) list \<Rightarrow>
   promise \<times> (string \<times> tunnel) list \<times> action list" where
  "createPublicTunnel env hostPort deployId tuns =
     (case spawn env of
        Inl e \<Rightarrow> (Fulfilled None, tuns, [SpawnTunnel hostPort])
      | Inr pid \<Rightarrow>
          (case run_tunnel (proc_events env) deployId pid tuns [SpawnTunnel hostPort] of
             (run, tuns', tr) \<Rightarrow> (run_promise run, tuns', tr)))"

text \<open>
  The detached continuation of the image and git handlers,
  \<^verbatim>\<open>createPublicTunnel(hostPort, deployId).then(tunnelUrl => ...)\<close>: it runs after the
  handler has answered, and writes the tunnel URL into the record if the record is still
  in the store. A failed \<^verbatim>\<open>UPDATE\<close> is logged by the \<^verbatim>\<open>.catch\<close>.
\<close>

definition tunnel_task :: "env \<Rightarrow> nat \<Rightarrow> string \<Rightarrow> state \<Rightarrow> state \<times> action list" where
  "tunnel_task env hostPort deployId s =
     (case createPublicTunnel env hostPort deployId (tunnels s) of
        (p, tuns, tr) \<Rightarrow>
          (let s1 = s\<lparr>tunnels := tuns\<rparr>
           in case p of
                Fulfilled (Some tunnelUrl) \<Rightarrow>
                  (case map_of (deployments s1) deployId of
                     None \<Rightarrow> (s1, tr)
                   | Some dep \<Rightarrow>
                       (let s2 = s1\<lparr>deployments :=
                                  AList.update deployId
                                    (dep\<lparr>dep_url := tunnelUrl, dep_hasPublicUrl := True\<rparr>)
                                    (deployments s1)\<rparr>
                        in case db s2 of
                             None \<Rightarrow> (s2, tr)
                           | Some rows \<Rightarrow>
                               (case sql_update env of
                                  Inl e \<Rightarrow> (s2, tr @ [DbUpdateUrl tunnelUrl deployId])
                                | Inr _ \<Rightarrow>
                                    (s2\<lparr>db := Some (map (\<lambda>r. if row_id r = deployId
                                                              then r\<lparr>row_url := tunnelUrl\<rparr>
                                                              else r) rows)\<rparr>,
                                     tr @ [DbUpdateUrl tunnelUrl deployId]))))
              | _ \<Rightarrow> (s1, tr)))"

subsection \<open>Creation from an image: POST /api/deploy/docker\<close>

text \<open>
  The body of the \<^verbatim>\<open>try\<close> after the port is allocated. \<open>Inl e\<close> is an error thrown
  to the \<^verbatim>\<open>catch\<close>; \<open>Inr\<close> is a response sent inside the \<^verbatim>\<open>try\<close>.
\<close>

definition docker_try ::
  "env \<Rightarrow> string \<Rightarrow> string \<Rightarrow> string \<Rightarrow> nat \<Rightarrow> state \<Rightarrow>
   response outcome \<times> state \<times> action list" where
  "docker_try env img appPort deployId hostPort s =
     (let tr1 = [DockerPull img] in
      case docker_pull env of
        Inl e \<Rightarrow> (Inl e, s, tr1)
      | Inr _ \<Rightarrow>
     (let tr2 = tr1 @ [CreateContainer img appPort hostPort] in
      case createContainer env of
        Inl e \<Rightarrow> (Inl e, s, tr2)
      | Inr container \<Rightarrow>
     (let tr3 = tr2 @ [ContainerStart container] in
      case container_start env of
        Inl e \<Rightarrow> (Inl e, s, tr3)
      | Inr _ \<Rightarrow>
     (let tr4 = tr3 @ [ContainerInspect container] in
      case container_inspect env container of
        Inl e \<Rightarrow> (Inl e, s, tr4)
      | Inr running \<Rightarrow>
          if \<not> running then
            (Inr (Start_failed (case container_logs env of
                                  Inl _ \<Rightarrow> ''No logs available''
                                | Inr logs \<Rightarrow> logs)),
             s\<lparr>usedPorts := releasePort hostPort (usedPorts s)\<rparr>,
             tr4 @ [ContainerLogs container 50, ContainerRemove container True])
          else
            (let deployment =
                   \<lparr>dep_id = deployId,
                    dep_url = localhost_url hostPort,
                    dep_localUrl = localhost_url hostPort,
                    dep_container = container,
                    dep_status = ''running'',
                    dep_type = ''docker'',
                    dep_source = img,
                    dep_hasPublicUrl = False,
                    dep_hostPort = Some hostPort,
                    dep_buildDir = None,
                    dep_createdAt = now env\<rparr>;
                 s1 = s\<lparr>deployments := AList.update deployId deployment (deployments s)\<rparr>;
                 tr5 = tr4 @ [TunnelTask hostPort deployId]
             in case db s1 of
                  None \<Rightarrow> (Inr (Created deployId (dep_url deployment)), s1, tr5)
                | Some rows \<Rightarrow>
                    (case sql_insert env of
                       Inl e \<Rightarrow> (Inl e, s1, tr5 @ [DbInsert deployId])
                     | Inr _ \<Rightarrow>
                         (Inr (Created deployId (dep_url deployment)),
                          s1\<lparr>db := Some (rows @
                                 [\<lparr>row_id = deployId,
                                   row_url = dep_url deployment,
                                   row_localUrl = dep_localUrl deployment,
                                   row_container_id = dep_container deployment,
                                   row_status = dep_status deployment,
                                   row_type = dep_type deployment,
                                   row_source = dep_source deployment,
                                   row_created_at = now env\<rparr>])\<rparr>,
                          tr5 @ [DbInsert deployId])))))))"

text \<open>
  The handler: validation, the admission check, the allocation, the body, and the
  \<^verbatim>\<open>catch\<close>, which releases the port if one was allocated and answers 500. The port
  in the request defaults to \<^verbatim>\<open>'3000'\<close>. Past the validation the image is a string, so
  \<open>the\<close> is applied to \<open>Some\<close> only.
\<close>

definition appPort_of :: "request \<Rightarrow> string" where
  "appPort_of req = (case body_port req of None \<Rightarrow> ''3000'' | Some p \<Rightarrow> p)"

definition deploy_docker :: "nat \<Rightarrow> env \<Rightarrow> request \<Rightarrow> state \<Rightarrow> response \<times> state \<times> action list" where
  "deploy_docker MAX_DEPLOYMENTS env req s =
     (if \<not> validateDockerImage (body_image req)
      then (Error_json 400 ''Invalid Docker image name'', s, [])
      else if \<not> validatePort (parseInt env) (appPort_of req)
      then (Error_json 400 ''Invalid port number'', s, [])
      else
        (case checkDeploymentLimit MAX_DEPLOYMENTS (deployments s) of
           Inl e \<Rightarrow> (Error_json 500 e, s, [])
         | Inr _ \<Rightarrow>
             (case getRandomPort (random env) (usedPorts s) of
                Inl e \<Rightarrow> (Error_json 500 e, s, [])
              | Inr (hostPort, used) \<Rightarrow>
                  (case docker_try env (the (body_image req)) (appPort_of req) (uuid env) hostPort
                          (s\<lparr>usedPorts := used\<rparr>) of
                     (Inr resp, s', tr) \<Rightarrow> (resp, s', tr)
                   | (Inl e, s', tr) \<Rightarrow>
                       (Error_json 500 e,
                        s'\<lparr>usedPorts := releasePort hostPort (usedPorts s')\<rparr>, tr)))))"

subsection \<open>Creation from a git repository: POST /api/deploy/git\<close>

definition git_try ::
  "env \<Rightarrow> string \<Rightarrow> string \<Rightarrow> string \<Rightarrow> nat \<Rightarrow> string \<Rightarrow> state \<Rightarrow>
   response outcome \<times> state \<times> action list" where
  "git_try env rep appPort deployId hostPort buildDir s =
     (case ensure_dir env of
        Inl e \<Rightarrow> (Inl e, s, [])
      | Inr _ \<Rightarrow>
     (let tr1 = [GitClone rep buildDir] in
      case git_clone env of
        Inl e \<Rightarrow> (Inl e, s, tr1)
      | Inr _ \<Rightarrow>
     (let tr2 = tr1 @ [DockerBuild (''app-'' @ deployId)] in
      case docker_build env of
        Inl e \<Rightarrow> (Inl e, s, tr2)
      | Inr _ \<Rightarrow>
     (let tr3 = tr2 @ [CreateContainer (''app-'' @ deployId) appPort hostPort] in
      case createContainer env of
        Inl e \<Rightarrow> (Inl e, s, tr3)
      | Inr container \<Rightarrow>
     (let tr4 = tr3 @ [ContainerStart container] in
      case container_start env of
        Inl e \<Rightarrow> (Inl e, s, tr4)
      | Inr _ \<Rightarrow>
          (let deployment =
                 \<lparr>dep_id = deployId,
                  dep_url = localhost_url hostPort,
                  dep_localUrl = localhost_url hostPort,
                  dep_container = container,
                  dep_status = ''running'',
                  dep_type = ''git'',
                  dep_source = rep,
                  dep_hasPublicUrl = False,
                  dep_hostPort = Some hostPort,
                  dep_buildDir = Some buildDir,
                  dep_createdAt = now env\<rparr>;
               s1 = s\<lparr>deployments := AList.update deployId deployment (deployments s)\<rparr>
           in (Inr (Created deployId (dep_url deployment)), s1,
               tr4 @ [TunnelTask hostPort deployId] @
               (if existsSync env buildDir then [RmDirLater buildDir] else []))))))))"

definition deploy_git :: "nat \<Rightarrow> env \<Rightarrow> request \<Rightarrow> state \<Rightarrow> response \<times> state \<times> action list" where
  "deploy_git MAX_DEPLOYMENTS env req s =
     (if \<not> validateGitRepo (body_repo req)
      then (Error_json 400 ''Invalid Git repository URL'', s, [])
      else if \<not> validatePort (parseInt env) (appPort_of req)
      then (Error_json 400 ''Invalid port number'', s, [])
      else
        (case checkDeploymentLimit MAX_DEPLOYMENTS (deployments s) of
           Inl e \<Rightarrow> (Error_json 500 e, s, [])
         | Inr _ \<Rightarrow>
             (case getRandomPort (random env) (usedPorts s) of
                Inl e \<Rightarrow> (Error_json 500 e, s, [])
              | Inr (hostPort, used) \<Rightarrow>
                  (let buildDir = dirname env @ ''/deployments/build-'' @ uuid env
                   in case git_try env (the (body_repo req)) (appPort_of req) (uuid env) hostPort
                             buildDir (s\<lparr>usedPorts := used\<rparr>) of
                        (Inr resp, s', tr) \<Rightarrow> (resp, s', tr)
                      | (Inl e, s', tr) \<Rightarrow>
                          (Error_json 500 e,
                           s'\<lparr>usedPorts := releasePort hostPort (usedPorts s')\<rparr>,
                           tr @ (if existsSync env buildDir then [RmDir buildDir] else []))))))"

subsection \<open>Creation from an uploaded Dockerfile: POST /api/deploy/dockerfile\<close>

text \<open>
  The handler awaits \<^verbatim>\<open>createPublicTunnel\<close> before it builds the record: the events
  of the tunnel process are consumed inside the handler, and a promise that stays pending
  leaves the request without a response.
\<close>

definition dockerfile_try ::
  "env \<Rightarrow> string \<Rightarrow> string \<Rightarrow> nat \<Rightarrow> state \<Rightarrow> response outcome \<times> state \<times> action list" where
  "dockerfile_try env uploadedFile deployId hostPort s =
     (let tr1 = [DockerBuild (''app-'' @ deployId)] in
      case docker_build env of
        Inl e \<Rightarrow> (Inl e, s, tr1)
      | Inr _ \<Rightarrow>
     (let tr2 = tr1 @ [CreateContainer (''app-'' @ deployId) ''8080'' hostPort] in
      case createContainer env of
        Inl e \<Rightarrow> (Inl e, s, tr2)
      | Inr container \<Rightarrow>
     (let tr3 = tr2 @ [ContainerStart container] in
      case container_start env of
        Inl e \<Rightarrow> (Inl e, s, tr3)
      | Inr _ \<Rightarrow>
          (case createPublicTunnel env hostPort deployId (tunnels s) of
             (p, tuns, ttr) \<Rightarrow>
               (let s1 = s\<lparr>tunnels := tuns\<rparr>; tr4 = tr3 @ ttr in
                case p of
                  Pending \<Rightarrow> (Inr No_response, s1, tr4)
                | Rejected e \<Rightarrow> (Inl e, s1, tr4)
                | Fulfilled tunnelUrl \<Rightarrow>
                    (let deployment =
                           \<lparr>dep_id = deployId,
                            dep_url = (case tunnelUrl of
                                         Some u \<Rightarrow> u
                                       | None \<Rightarrow> localhost_url hostPort),
                            dep_localUrl = localhost_url hostPort,
                            dep_container = container,
                            dep_status = ''running'',
                            dep_type = ''dockerfile'',
                            dep_source = ''uploaded'',
                            dep_hasPublicUrl = (tunnelUrl \<noteq> None),
                            dep_hostPort = Some hostPort,
                            dep_buildDir = None,
                            dep_createdAt = now env\<rparr>;
                         s2 = s1\<lparr>deployments :=
                                   AList.update deployId deployment (deployments s1)\<rparr>
                     in (Inr (Created deployId (dep_url deployment)), s2,
                         tr4 @ (if existsSync env uploadedFile
                                then [UnlinkLater uploadedFile] else []))))))))"

definition deploy_dockerfile ::
  "nat \<Rightarrow> env \<Rightarrow> request \<Rightarrow> state \<Rightarrow> response \<times> state \<times> action list" where
  "deploy_dockerfile MAX_DEPLOYMENTS env req s =
     (case checkDeploymentLimit MAX_DEPLOYMENTS (deployments s) of
        Inl e \<Rightarrow> (Error_json 500 e, s, [])
      | Inr _ \<Rightarrow>
          (case req_file req of
             None \<Rightarrow> (Error_json 400 ''No Dockerfile uploaded'', s, [])
           | Some uploadedFile \<Rightarrow>
               (let cleanup = (if existsSync env uploadedFile then [Unlink uploadedFile] else [])
                in case getRandomPort (random env) (usedPorts s) of
                     Inl e \<Rightarrow> (Error_json 500 e, s, cleanup)
                   | Inr (hostPort, used) \<Rightarrow>
                       (case dockerfile_try env uploadedFile (uuid env) hostPort
                               (s\<lparr>usedPorts := used\<rparr>) of
                          (Inr resp, s', tr) \<Rightarrow> (resp, s', tr)
                        | (Inl e, s', tr) \<Rightarrow>
                            (Error_json 500 e,
                             s'\<lparr>usedPorts := releasePort hostPort (usedPorts s')\<rparr>,
                             tr @ cleanup)))))"

subsection \<open>The test deployment: POST /api/deploy/test\<close>

definition test_try ::
  "env \<Rightarrow> string \<Rightarrow> nat \<Rightarrow> state \<Rightarrow> response outcome \<times> state \<times> action list" where
  "test_try env deployId hostPort s =
     (let tr1 = [DockerPull ''nginx:alpine''] in
      case docker_pull env of
        Inl e \<Rightarrow> (Inl e, s, tr1)
      | Inr _ \<Rightarrow>
     (let tr2 = tr1 @ [CreateContainer ''nginx:alpine'' ''80'' hostPort] in
      case createContainer env of
        Inl e \<Rightarrow> (Inl e, s, tr2)
      | Inr container \<Rightarrow>
     (let tr3 = tr2 @ [ContainerStart container] in
      case container_start env of
        Inl e \<Rightarrow> (Inl e, s, tr3)
      | Inr _ \<Rightarrow>
          (case createPublicTunnel env hostPort deployId (tunnels s) of
             (p, tuns, ttr) \<Rightarrow>
               (let s1 = s\<lparr>tunnels := tuns\<rparr>; tr4 = tr3 @ ttr in
                case p of
                  Pending \<Rightarrow> (Inr No_response, s1, tr4)
                | Rejected e \<Rightarrow> (Inl e, s1, tr4)
                | Fulfilled tunnelUrl \<Rightarrow>
                    (let deployment =
                           \<lparr>dep_id = deployId,
                            dep_url = (case tunnelUrl of
                                         Some u \<Rightarrow> u
                                       | None \<Rightarrow> localhost_url hostPort),
                            dep_localUrl = localhost_url hostPort,
                            dep_container = container,
                            dep_status = ''running'',
                            dep_type = ''test'',
                            dep_source = ''nginx:alpine'',
                            dep_hasPublicUrl = (tunnelUrl \<noteq> None),
                            dep_hostPort = Some hostPort,
                            dep_buildDir = None,
                            dep_createdAt = now env\<rparr>;
                         s2 = s1\<lparr>deployments :=
                                   AList.update deployId deployment (deployments s1)\<rparr>
                     in (Inr (Created deployId (dep_url deployment)), s2, tr4)))))))"

definition deploy_test :: "nat \<Rightarrow> env \<Rightarrow> state \<Rightarrow> response \<times> state \<times> action list" where
  "deploy_test MAX_DEPLOYMENTS env s =
     (case checkDeploymentLimit MAX_DEPLOYMENTS (deployments s) of
        Inl e \<Rightarrow> (Error_json 500 e, s, [])
      | Inr _ \<Rightarrow>
          (case getRandomPort (random env) (usedPorts s) of
             Inl e \<Rightarrow> (Error_json 500 e, s, [])
           | Inr (hostPort, used) \<Rightarrow>
               (case test_try env (uuid env) hostPort (s\<lparr>usedPorts := used\<rparr>) of
                  (Inr resp, s', tr) \<Rightarrow> (resp, s', tr)
                | (Inl e, s', tr) \<Rightarrow>
                    (Error_json 500 e,
                     s'\<lparr>usedPorts := releasePort hostPort (usedPorts s')\<rparr>, tr))))"

subsection \<open>Deletion: DELETE /api/deploy/:id\<close>

text \<open>
  Each cleanup step has its own \<^verbatim>\<open>try/catch\<close> that pushes a message onto
  \<^verbatim>\<open>errors\<close>; a failing \<^verbatim>\<open>container.stop\<close> is caught on its own and only logged.
  The steps are written as functions of the deployment found, in the order of the source.
\<close>

definition container_cleanup :: "env \<Rightarrow> deployment \<Rightarrow> string list \<times> action list" where
  "container_cleanup env deployment =
     (case container_remove env of
        Inl e \<Rightarrow> ([''Container cleanup failed: '' @ e],
                  [ContainerStop (dep_container deployment) 10,
                   ContainerRemove (dep_container deployment) True])
      | Inr _ \<Rightarrow> ([],
                  [ContainerStop (dep_container deployment) 10,
                   ContainerRemove (dep_container deployment) True]))"

definition tunnel_cleanup ::
  "env \<Rightarrow> string \<Rightarrow> (string \<times> tunnel) list \<Rightarrow>
   (string \<times> tunnel) list \<times> string list \<times> action list" where
  "tunnel_cleanup env ident tuns =
     (case map_of tuns ident of
        None \<Rightarrow> (tuns, [], [])
      | Some t \<Rightarrow>
          (case kill env of
             Inl e \<Rightarrow> (tuns, [''Tunnel cleanup failed: '' @ e], [KillProcess (tunnel_process t)])
           | Inr _ \<Rightarrow> (AList.delete ident tuns, [], [KillProcess (tunnel_process t)])))"

definition port_cleanup :: "deployment \<Rightarrow> nat set \<Rightarrow> nat set" where
  "port_cleanup deployment used =
     (case dep_hostPort deployment of
        None \<Rightarrow> used
      | Some hostPort \<Rightarrow> if hostPort \<noteq> 0 then releasePort hostPort used else used)"

definition builddir_cleanup :: "env \<Rightarrow> deployment \<Rightarrow> string list \<times> action list" where
  "builddir_cleanup env deployment =
     (case dep_buildDir deployment of
        None \<Rightarrow> ([], [])
      | Some buildDir \<Rightarrow>
          if buildDir \<noteq> [] \<and> existsSync env buildDir then
            (case rmSync env of
               Inl e \<Rightarrow> ([''Build directory cleanup failed: '' @ e], [RmDir buildDir])
             | Inr _ \<Rightarrow> ([], [RmDir buildDir]))
          else ([], []))"

definition db_cleanup :: "env \<Rightarrow> string \<Rightarrow> row list option \<Rightarrow> row list option \<times> string list \<times> action list" where
  "db_cleanup env ident table =
     (case table of
        None \<Rightarrow> (None, [], [])
      | Some rows \<Rightarrow>
          (case sql_delete env ident of
             Inl e \<Rightarrow> (Some rows, [''Database deletion failed: '' @ e], [DbDelete ident])
           | Inr _ \<Rightarrow> (Some (filter (\<lambda>r. row_id r \<noteq> ident) rows), [], [DbDelete ident])))"

definition delete_deployment :: "env \<Rightarrow> string \<Rightarrow> state \<Rightarrow> response \<times> state \<times> action list" where
  "delete_deployment env ident s =
     (case map_of (deployments s) ident of
        None \<Rightarrow> (Error_json 404 ''Deployment not found'', s, [])
      | Some deployment \<Rightarrow>
          (case container_cleanup env deployment of (errors1, tr1) \<Rightarrow>
           case tunnel_cleanup env ident (tunnels s) of (tuns, errors2, tr2) \<Rightarrow>
           case builddir_cleanup env deployment of (errors3, tr3) \<Rightarrow>
           case db_cleanup env ident (db s) of (table, errors4, tr4) \<Rightarrow>
             (Deleted (errors1 @ errors2 @ errors3 @ errors4),
              \<lparr>deployments = AList.delete ident (deployments s),
               tunnels = tuns,
               usedPorts = port_cleanup deployment (usedPorts s),
               db = table\<rparr>,
              tr1 @ tr2 @ tr3 @ tr4)))"

subsection \<open>Startup reconciliation: loadDeploymentsFromDB\<close>

text \<open>
  The loop over the rows the \<^verbatim>\<open>SELECT\<close> returned. A container whose \<^verbatim>\<open>inspect\<close>
  raises is taken as gone and its row is deleted; an error of that \<^verbatim>\<open>DELETE\<close> leaves
  the loop for the outer \<^verbatim>\<open>catch\<close>, which logs it. The flag says whether the loop ran
  to its end.
\<close>

definition restored :: "row \<Rightarrow> bool \<Rightarrow> deployment" where
  "restored r running =
     \<lparr>dep_id = row_id r,
      dep_url = row_url r,
      dep_localUrl = row_localUrl r,
      dep_container = row_container_id r,
      dep_status = (if running then ''running'' else ''stopped''),
      dep_type = row_type r,
      dep_source = row_source r,
      dep_hasPublicUrl = (row_url r \<noteq> [] \<and> \<not> str_includes (row_url r) ''localhost''),
      dep_hostPort = None,
      dep_buildDir = None,
      dep_createdAt = row_created_at r\<rparr>"

fun restore_rows :: "env \<Rightarrow> row list \<Rightarrow> state \<times> action list \<Rightarrow> (state \<times> action list) \<times> bool" where
  "restore_rows env [] (s, tr) = ((s, tr), True)"
| "restore_rows env (r # rs) (s, tr) =
     (case container_inspect env (row_container_id r) of
        Inr running \<Rightarrow>
          restore_rows env rs
            (s\<lparr>deployments := AList.update (row_id r) (restored r running) (deployments s)\<rparr>,
             tr @ [ContainerInspect (row_container_id r)])
      | Inl _ \<Rightarrow>
          (case sql_delete env (row_id r) of
             Inl e \<Rightarrow> ((s, tr @ [ContainerInspect (row_container_id r), DbDelete (row_id r)]), False)
           | Inr _ \<Rightarrow>
               restore_rows env rs
                 (s\<lparr>db := map_option (filter (\<lambda>x. row_id x \<noteq> row_id r)) (db s)\<rparr>,
                  tr @ [ContainerInspect (row_container_id r), DbDelete (row_id r)])))"

definition loadDeploymentsFromDB :: "env \<Rightarrow> state \<Rightarrow> state \<times> action list" where
  "loadDeploymentsFromDB env s =
     (case db s of
        None \<Rightarrow> (s, [])
      | Some rows \<Rightarrow>
          (case sql_select env of
             Inl e \<Rightarrow> (s, [DbSelect])
           | Inr _ \<Rightarrow> fst (restore_rows env rows (s, [DbSelect]))))"

text \<open>The state of a process that has just started.\<close>

definition initial_state :: "row list option \<Rightarrow> state" where
  "initial_state table = \<lparr>deployments = [], tunnels = [], usedPorts = {}, db = table\<rparr>"

subsection \<open>Operations\<close>

text \<open>
  The operations that change the state, and the state each one leaves: the four creation
  handlers, the deletion handler, the detached tunnel continuation and the reconciliation.
\<close>

datatype operation =
    Deploy_docker request
  | Deploy_git request
  | Deploy_dockerfile request
  | Deploy_test
  | Delete_deployment string
  | Tunnel_task nat string
  | Load_from_db

fun perform :: "nat \<Rightarrow> env \<Rightarrow> operation \<Rightarrow> state \<Rightarrow> state" where
  "perform MAX_DEPLOYMENTS env (Deploy_docker req) s = fst (snd (deploy_docker MAX_DEPLOYMENTS env req s))"
| "perform MAX_DEPLOYMENTS env (Deploy_git req) s = fst (snd (deploy_git MAX_DEPLOYMENTS env req s))"
| "perform MAX_DEPLOYMENTS env (Deploy_dockerfile req) s = fst (snd (deploy_dockerfile MAX_DEPLOYMENTS env req s))"
| "perform MAX_DEPLOYMENTS env Deploy_test s = fst (snd (deploy_test MAX_DEPLOYMENTS env s))"
| "perform MAX_DEPLOYMENTS env (Delete_deployment ident) s = fst (snd (delete_deployment env ident s))"
| "perform MAX_DEPLOYMENTS env (Tunnel_task hostPort deployId) s = fst (tunnel_task env hostPort deployId s)"
| "perform MAX_DEPLOYMENTS env Load_from_db s = fst (loadDeploymentsFromDB env s)"

section \<open>Notions used in the statements\<close>

text \<open>
  For the runs of the tunnel provisioner: the text a list of events delivers, the events
  that neither fire the timer nor report a process error (data and exit), the state of a
  run that has just begun, and the invariant of a run: the promise is never rejected, and
  it is settled once the timer is no longer pending or the flag \<^verbatim>\<open>resolved\<close> is set.
\<close>

fun data_of :: "proc_event \<Rightarrow> string" where
  "data_of (Data d) = d"
| "data_of Timeout = []"
| "data_of (ProcError e) = []"
| "data_of (Exit code) = []"

definition received :: "proc_event list \<Rightarrow> string" where
  "received es = concat (map data_of es)"

fun silent :: "proc_event \<Rightarrow> bool" where
  "silent (Data d) = True"
| "silent Timeout = False"
| "silent (ProcError e) = False"
| "silent (Exit code) = True"

definition run_ok :: "tunnel_run \<Rightarrow> bool" where
  "run_ok run =
     ((case run_promise run of Rejected e \<Rightarrow> False | _ \<Rightarrow> True) \<and>
      (run_timer run \<or> run_promise run \<noteq> Pending) \<and>
      (\<not> run_resolved run \<or> run_promise run \<noteq> Pending))"

definition fresh_run :: tunnel_run where
  "fresh_run = \<lparr>run_output = [], run_resolved = False, run_timer = True, run_promise = Pending\<rparr>"

section \<open>Example inputs\<close>

text \<open>
  Concrete inputs for the instances below: an environment in which every external call
  succeeds, variants of it, requests and states. \<open>parseInt_example\<close> gives the value of
  \<^verbatim>\<open>parseInt\<close> on the two port strings the examples use.
\<close>

text \<open>
  Two sequences of draws: \<open>largest_draw\<close> is \<open>1 - 2^-52\<close> at every iteration, the largest
  value a generator with 52 random bits returns; \<open>smallest_draw\<close> is \<open>0\<close>.
\<close>

definition largest_draw :: "nat \<Rightarrow> nat" where
  "largest_draw i = 2 ^ 53 - 2"

definition smallest_draw :: "nat \<Rightarrow> nat" where
  "smallest_draw i = 0"

definition parseInt_example :: "string \<Rightarrow> int option" where
  "parseInt_example p =
     (if p = ''80'' then Some 80 else if p = ''3000'' then Some 3000 else None)"

definition always_running :: "string \<Rightarrow> bool outcome" where
  "always_running c = Inr True"

definition never_running :: "string \<Rightarrow> bool outcome" where
  "never_running c = Inr False"

definition all_exist :: "string \<Rightarrow> bool" where
  "all_exist path = True"

definition delete_ok :: "string \<Rightarrow> unit outcome" where
  "delete_ok ident = Inr ()"

definition env_ok :: env where
  "env_ok =
     \<lparr>uuid = ''a1b2c3d4'',
      random = smallest_draw,
      now = ''2024-05-01T10:00:00.000Z'',
      parseInt = parseInt_example,
      dirname = ''/app'',
      docker_pull = Inr (),
      docker_build = Inr (),
      git_clone = Inr (),
      ensure_dir = Inr (),
      createContainer = Inr ''c0ffee'',
      container_start = Inr (),
      container_inspect = always_running,
      container_logs = Inr ''exec format error'',
      container_stop = Inr (),
      container_remove = Inr (),
      spawn = Inr 4242,
      proc_events = [],
      kill = Inr (),
      existsSync = all_exist,
      rmSync = Inr (),
      unlinkSync = Inr (),
      sql_select = Inr (),
      sql_insert = Inr (),
      sql_update = Inr (),
      sql_delete = delete_ok\<rparr>"

definition nginx_request :: request where
  "nginx_request =
     \<lparr>body_image = Some ''nginx:alpine'', body_repo = None, body_port = Some ''80'', req_file = None\<rparr>"

definition env_not_running :: env where
  "env_not_running = env_ok\<lparr>container_inspect := never_running\<rparr>"

definition example_deployment :: deployment where
  "example_deployment =
     \<lparr>dep_id = ''0badcafe'',
      dep_url = ''http://localhost:6001'',
      dep_localUrl = ''http://localhost:6001'',
      dep_container = ''deadbeef'',
      dep_status = ''running'',
      dep_type = ''docker'',
      dep_source = ''redis:7'',
      dep_hasPublicUrl = False,
      dep_hostPort = Some 6001,
      dep_buildDir = None,
      dep_createdAt = ''2024-04-30T08:00:00.000Z''\<rparr>"

definition one_deployment :: state where
  "one_deployment =
     \<lparr>deployments = [(''0badcafe'', example_deployment)],
      tunnels = [],
      usedPorts = {6001},
      db = None\<rparr>"

definition bad_image_request :: request where
  "bad_image_request =
     \<lparr>body_image = Some ''my image'', body_repo = None, body_port = Some ''80'', req_file = None\<rparr>"

definition with_tunnel :: state where
  "with_tunnel =
     \<lparr>deployments = [(''0badcafe'', example_deployment)],
      tunnels = [(''0badcafe'',
                  \<lparr>tunnel_url = ''https://quick-fox.trycloudflare.com'', tunnel_process = 4242\<rparr>)],
      usedPorts = {6001},
      db = None\<rparr>"

definition env_remove_fails :: env where
  "env_remove_fails = env_ok\<lparr>container_remove := Inl ''No such container''\<rparr>"

definition stale_row :: row where
  "stale_row =
     \<lparr>row_id = ''0badcafe'',
      row_url = ''http://localhost:6001'',
      row_localUrl = ''http://localhost:6001'',
      row_container_id = ''deadbeef'',
      row_status = ''running'',
      row_type = ''docker'',
      row_source = ''redis:7'',
      row_created_at = ''2024-04-30 08:00:00''\<rparr>"

definition orphan_row :: row where
  "orphan_row =
     \<lparr>row_id = ''5ca1ab1e'',
      row_url = ''http://localhost:7002'',
      row_localUrl = ''http://localhost:7002'',
      row_container_id = ''f00dfeed'',
      row_status = ''running'',
      row_type = ''docker'',
      row_source = ''nginx:alpine'',
      row_created_at = ''2024-04-30 09:00:00''\<rparr>"

definition exited_or_gone :: "string \<Rightarrow> bool outcome" where
  "exited_or_gone c = (if c = ''deadbeef'' then Inr False else Inl ''no such container'')"

definition env_restart :: env where
  "env_restart = env_ok\<lparr>container_inspect := exited_or_gone\<rparr>"



definition env_timeout :: env where
  "env_timeout = env_ok\<lparr>proc_events := [Data ''starting tunnel'', Exit (Some 1), Timeout]\<rparr>"

definition env_no_cloudflared :: env where
  "env_no_cloudflared = env_ok\<lparr>spawn := Inl ''spawn cloudflared ENOENT''\<rparr>"

definition env_tunnel_ready :: env where
  "env_tunnel_ready =
     env_ok\<lparr>proc_events := [Data ''INF |  https://quick-fox.trycloudflare.com  |'']\<rparr>"

definition dockerfile_request :: request where
  "dockerfile_request =
     \<lparr>body_image = None, body_repo = None, body_port = None, req_file = Some ''uploads/3f2a9c''\<rparr>"

definition git_request :: request where
  "git_request =
     \<lparr>body_image = None, body_repo = Some ''https://github.com/acme/app.git'',
      body_port = Some ''3000'', req_file = None\<rparr>"

definition env_db_down :: env where
  "env_db_down = env_ok\<lparr>sql_insert := Inl ''connection is in closed state''\<rparr>"

definition env_second :: env where
  "env_second = env_ok\<lparr>uuid := ''e5f6a7b8'', createContainer := Inr ''c0ffee02''\<rparr>"

definition after_db_failure :: state where
  "after_db_failure = fst (snd (deploy_docker 50 env_db_down nginx_request (initial_state (Some []))))"

definition record_of_first :: deployment where
  "record_of_first =
     \<lparr>dep_id = ''a1b2c3d4'',
      dep_url = ''http://localhost:5000'',
      dep_localUrl = ''http://localhost:5000'',
      dep_container = ''c0ffee'',
      dep_status = ''running'',
      dep_type = ''docker'',
      dep_source = ''nginx:alpine'',
      dep_hasPublicUrl = False,
      dep_hostPort = Some 5000,
      dep_buildDir = None,
      dep_createdAt = ''2024-05-01T10:00:00.000Z''\<rparr>"

definition record_of_second :: deployment where
  "record_of_second =
     \<lparr>dep_id = ''e5f6a7b8'',
      dep_url = ''http://localhost:5000'',
      dep_localUrl = ''http://localhost:5000'',
      dep_container = ''c0ffee02'',
      dep_status = ''running'',
      dep_type = ''docker'',
      dep_source = ''nginx:alpine'',
      dep_hasPublicUrl = False,
      dep_hostPort = Some 5000,
      dep_buildDir = None,
      dep_createdAt = ''2024-05-01T10:00:00.000Z''\<rparr>"

section \<open>Properties\<close>

subsection \<open>The port formula stays between 5000 and 9999\<close>

text \<open>
  Rounding to 53 bits never crosses a bound that is itself a multiple of the rounding
  unit: the two lemmas below, for an upper and for a lower bound \<open>c * 2^t\<close>.
\<close>

lemma shift_le: "n < 2 ^ (53 + t) \<Longrightarrow> nat (bitlen (int n)) - 53 \<le> t"
proof -
  assume "n < 2 ^ (53 + t)"
  then have "bitlen (int n) \<le> int (53 + t)"
    by (simp only: less_power_nat_iff_bitlen)
  then show ?thesis by linarith
qed

lemma round53_le:
  assumes "n \<le> c * 2 ^ t" and "nat (bitlen (int n)) - 53 \<le> t"
  shows "round53 n \<le> c * 2 ^ t"
proof -
  define s where "s = nat (bitlen (int n)) - 53"
  define C where "C = c * 2 ^ (t - s)"
  have st: "s \<le> t" using assms(2) by (simp add: s_def)
  have B: "c * 2 ^ t = C * 2 ^ s"
    using st by (simp add: C_def power_add [symmetric])
  define q where "q = n div 2 ^ s"
  define r where "r = n mod 2 ^ s"
  have n: "n = q * 2 ^ s + r"
    unfolding q_def r_def by (rule div_mult_mod_eq [symmetric])
  have qC: "q \<le> C"
    using assms(1) unfolding B q_def
    by (metis div_le_mono div_mult_self_is_m zero_less_numeral zero_less_power)
  have up: "r \<noteq> 0 \<Longrightarrow> (q + 1) * 2 ^ s \<le> C * 2 ^ s"
  proof -
    assume r0: "r \<noteq> 0"
    have "q \<noteq> C"
    proof
      assume "q = C"
      then have "n = C * 2 ^ s + r" using n by simp
      with assms(1) B r0 show False by simp
    qed
    with qC have "q + 1 \<le> C" by simp
    then show ?thesis by (rule mult_le_mono1)
  qed
  have low: "q * 2 ^ s \<le> C * 2 ^ s" using qC by (rule mult_le_mono1)
  have "round53 n \<le> C * 2 ^ s"
  proof (cases "r = 0")
    case True
    then show ?thesis
      unfolding round53_def Let_def s_def [symmetric] q_def [symmetric] r_def [symmetric]
      using low by simp
  next
    case False
    from up [OF False] low show ?thesis
      unfolding round53_def Let_def s_def [symmetric] q_def [symmetric] r_def [symmetric]
      by simp
  qed
  then show ?thesis by (simp add: B)
qed

lemma round53_ge:
  assumes "c * 2 ^ t \<le> n" and "nat (bitlen (int n)) - 53 \<le> t"
  shows "c * 2 ^ t \<le> round53 n"
proof -
  define s where "s = nat (bitlen (int n)) - 53"
  define C where "C = c * 2 ^ (t - s)"
  have st: "s \<le> t" using assms(2) by (simp add: s_def)
  have B: "c * 2 ^ t = C * 2 ^ s"
    using st by (simp add: C_def power_add [symmetric])
  define q where "q = n div 2 ^ s"
  have qC: "C \<le> q"
    using assms(1) unfolding B q_def
    by (metis div_le_mono div_mult_self_is_m zero_less_numeral zero_less_power)
  have low: "C * 2 ^ s \<le> q * 2 ^ s" using qC by (rule mult_le_mono1)
  have "C \<le> q + 1" using qC by simp
  then have "C * 2 ^ s \<le> (q + 1) * 2 ^ s" by (rule mult_le_mono1)
  with low have "C * 2 ^ s \<le> round53 n"
    unfolding round53_def Let_def s_def [symmetric] q_def [symmetric]
    by (auto split: if_splits)
  then show ?thesis by (simp add: B)
qed

lemma random_port_range:
  assumes "k < 2 ^ 53"
  shows "5000 \<le> random_port k \<and> random_port k \<le> 9999"
proof -
  define P where "P = round53 (k * (9999 - 5000))"
  have k1: "k * (9999 - 5000) \<le> 4999 * 2 ^ 53" using assms by simp
  have k2: "k * (9999 - 5000) < 2 ^ (53 + 53)" using assms by simp
  have P: "P \<le> 4999 * 2 ^ 53"
    unfolding P_def by (rule round53_le [OF k1 shift_le [OF k2]])
  have s1: "P + 5000 * 2 ^ 53 \<le> 9999 * 2 ^ 53" using P by simp
  have s2: "5000 * 2 ^ 53 \<le> P + 5000 * 2 ^ 53" by simp
  have s3: "P + 5000 * 2 ^ 53 < 2 ^ (53 + 53)" using P by simp
  have u: "round53 (P + 5000 * 2 ^ 53) \<le> 9999 * 2 ^ 53"
    by (rule round53_le [OF s1 shift_le [OF s3]])
  have l: "5000 * 2 ^ 53 \<le> round53 (P + 5000 * 2 ^ 53)"
    by (rule round53_ge [OF s2 shift_le [OF s3]])
  have "5000 \<le> round53 (P + 5000 * 2 ^ 53) div 2 ^ 53"
    using l by (simp add: less_eq_div_iff_mult_less_eq)
  moreover have "round53 (P + 5000 * 2 ^ 53) div 2 ^ 53 \<le> 9999"
    using u by (metis div_le_mono div_mult_self_is_m zero_less_numeral zero_less_power)
  ultimately show ?thesis by (simp add: random_port_def P_def)
qed

lemma random_port_largest: "random_port (largest_draw i) = 9999"
  by (simp add: largest_draw_def random_port_def round53_def Let_def compute_bitlen)

lemma random_port_smallest: "random_port (smallest_draw i) = 5000"
  by (simp add: smallest_draw_def random_port_def round53_def Let_def compute_bitlen)

subsection \<open>The allocator's loop\<close>

lemma getRandomPort_loop_Inr:
  "getRandomPort_loop rnd used a = Inr (p, u) \<Longrightarrow>
   p \<notin> used \<and> u = insert p used \<and>
   (\<exists>i. a \<le> i \<and> i < 100 \<and> p = random_port (rnd i) \<and>
        (\<forall>j. a \<le> j \<and> j < i \<longrightarrow> random_port (rnd j) \<in> used))"
proof (induction rnd used a rule: getRandomPort_loop.induct)
  case (1 rnd used attempts)
  show ?case
  proof (cases "attempts < 100")
    case False
    with "1.prems" show ?thesis by (simp add: getRandomPort_loop.simps)
  next
    case lt: True
    show ?thesis
    proof (cases "random_port (rnd attempts) \<in> used")
      case False
      with lt "1.prems" have "p = random_port (rnd attempts)" "u = insert p used"
        by (auto simp: getRandomPort_loop.simps [of rnd used attempts] Let_def)
      with False lt show ?thesis by auto
    next
      case True
      with lt "1.prems" have "getRandomPort_loop rnd used (attempts + 1) = Inr (p, u)"
        by (simp add: getRandomPort_loop.simps [of rnd used attempts] Let_def)
      with "1.IH" [OF lt refl] True
      obtain i where i: "p \<notin> used" "u = insert p used" "attempts + 1 \<le> i" "i < 100"
        "p = random_port (rnd i)" "\<forall>j. attempts + 1 \<le> j \<and> j < i \<longrightarrow> random_port (rnd j) \<in> used"
        by auto
      have "\<forall>j. attempts \<le> j \<and> j < i \<longrightarrow> random_port (rnd j) \<in> used"
      proof (intro allI impI)
        fix j assume j: "attempts \<le> j \<and> j < i"
        show "random_port (rnd j) \<in> used"
        proof (cases "j = attempts")
          case True with \<open>random_port (rnd attempts) \<in> used\<close> show ?thesis by simp
        next
          case False with j i(6) show ?thesis by simp
        qed
      qed
      with i show ?thesis by (intro conjI exI [of _ i]) auto
    qed
  qed
qed

lemma getRandomPort_loop_Inl:
  "getRandomPort_loop rnd used a = Inl e \<Longrightarrow>
   e = ''Unable to find available port'' \<and>
   (\<forall>i. a \<le> i \<and> i < 100 \<longrightarrow> random_port (rnd i) \<in> used)"
proof (induction rnd used a rule: getRandomPort_loop.induct)
  case (1 rnd used attempts)
  show ?case
  proof (cases "attempts < 100")
    case False
    with "1.prems" show ?thesis by (auto simp add: getRandomPort_loop.simps)
  next
    case lt: True
    show ?thesis
    proof (cases "random_port (rnd attempts) \<in> used")
      case False
      with lt "1.prems" show ?thesis
        by (simp add: getRandomPort_loop.simps [of rnd used attempts] Let_def)
    next
      case True
      with lt "1.prems" have "getRandomPort_loop rnd used (attempts + 1) = Inl e"
        by (simp add: getRandomPort_loop.simps [of rnd used attempts] Let_def)
      with "1.IH" [OF lt refl] True
      have e: "e = ''Unable to find available port''"
        and rest: "\<forall>i. attempts + 1 \<le> i \<and> i < 100 \<longrightarrow> random_port (rnd i) \<in> used"
        by auto
      have "\<forall>i. attempts \<le> i \<and> i < 100 \<longrightarrow> random_port (rnd i) \<in> used"
      proof (intro allI impI)
        fix i assume i: "attempts \<le> i \<and> i < 100"
        show "random_port (rnd i) \<in> used"
        proof (cases "i = attempts")
          case True with \<open>random_port (rnd attempts) \<in> used\<close> show ?thesis by simp
        next
          case False with i rest show ?thesis by simp
        qed
      qed
      with e show ?thesis by simp
    qed
  qed
qed

lemma getRandomPort_fresh:
  "getRandomPort rnd used = Inr (p, u) \<Longrightarrow> p \<notin> used \<and> u = insert p used"
  unfolding getRandomPort_def by (drule getRandomPort_loop_Inr) simp

lemma getRandomPort_bounds:
  assumes "\<forall>i. rnd i < 2 ^ 53" and "getRandomPort rnd used = Inr (p, u)"
  shows "5000 \<le> p \<and> p \<le> 9999"
proof -
  from assms(2) obtain i where "p = random_port (rnd i)"
    unfolding getRandomPort_def by (auto dest: getRandomPort_loop_Inr)
  with random_port_range [of "rnd i"] assms(1) show ?thesis by simp
qed

text \<open>
  C7. Releasing a port is idempotent: a second release changes nothing, a release of a
  port that is not in the used set changes nothing, and \<open>releasePort\<close> has no error
  result (it is a total function into the sets of ports).
\<close>

theorem releasePort_idempotent:
  "releasePort p (releasePort p used) = releasePort p used \<and>
   (p \<notin> used \<longrightarrow> releasePort p used = used)"
  by (simp add: releasePort_def)

theorem releasePort_idempotent_witness:
  "releasePort 5000 (releasePort 5000 {5000, 5001}) = releasePort 5000 {5000, 5001} \<and>
   releasePort 5000 {5000, 5001} = {5001} \<and>
   5002 \<notin> {5000, 5001 :: nat} \<and> releasePort 5002 {5000, 5001} = {5000, 5001}"
  using releasePort_idempotent [of 5000 "{5000, 5001}"]
        releasePort_idempotent [of 5002 "{5000, 5001}"]
  by (simp add: releasePort_def)

text \<open>
  C10, as stated, fails: with the draw \<open>1 - 2^-52\<close> the product rounds to
  \<open>4999 - 2^-40\<close> and the sum \<open>9999 - 2^-40\<close>, a tie between two doubles, rounds to
  the even one, \<open>9999\<close>; the allocator returns the port 9999, above 9998.
\<close>

theorem getRandomPort_returns_9999:
  "getRandomPort largest_draw {} = Inr (9999, {9999}) \<and> largest_draw 0 < 2 ^ 53"
proof
  show "getRandomPort largest_draw {} = Inr (9999, {9999})"
    by (simp add: getRandomPort_def getRandomPort_loop.simps [of _ _ 0] random_port_largest Let_def)
  show "largest_draw 0 < 2 ^ 53"
    by (simp add: largest_draw_def)
qed

text \<open>
  C10, amended. Every port the allocator returns is an integer between 5000 and 9999,
  and is the first of the at most 100 probes that is not in the used set; the allocator
  throws exactly when all 100 probes hit used ports. The loop is a total function (its
  termination is proved with the measure \<open>100 - attempts\<close>), so the allocation always
  ends.
\<close>

theorem getRandomPort_range:
  assumes "\<forall>i. rnd i < 2 ^ 53"
  shows "case getRandomPort rnd used of
           Inr (p, used') \<Rightarrow>
             5000 \<le> p \<and> p \<le> 9999 \<and>
             (\<exists>i<100. p = random_port (rnd i) \<and> (\<forall>j<i. random_port (rnd j) \<in> used))
         | Inl e \<Rightarrow>
             e = ''Unable to find available port'' \<and>
             (\<forall>i<100. random_port (rnd i) \<in> used)"
proof (cases "getRandomPort rnd used")
  case (Inl e)
  then have "getRandomPort_loop rnd used 0 = Inl e" by (simp add: getRandomPort_def)
  from getRandomPort_loop_Inl [OF this] Inl show ?thesis by simp
next
  case (Inr pu)
  obtain p u where pu: "pu = (p, u)" by (cases pu)
  from Inr pu have r: "getRandomPort rnd used = Inr (p, u)" by simp
  from getRandomPort_bounds [OF assms r] have b: "5000 \<le> p \<and> p \<le> 9999" .
  from r have "getRandomPort_loop rnd used 0 = Inr (p, u)" by (simp add: getRandomPort_def)
  from getRandomPort_loop_Inr [OF this]
  obtain i where "i < 100" "p = random_port (rnd i)"
    "\<forall>j. 0 \<le> j \<and> j < i \<longrightarrow> random_port (rnd j) \<in> used"
    by blast
  then have "\<exists>i<100. p = random_port (rnd i) \<and> (\<forall>j<i. random_port (rnd j) \<in> used)"
    by (intro exI [of _ i]) simp
  with b r show ?thesis by simp
qed

theorem getRandomPort_range_witness:
  "(\<forall>i. smallest_draw i < 2 ^ 53) \<and>
   getRandomPort smallest_draw {} = Inr (5000, {5000}) \<and>
   (case getRandomPort smallest_draw {5000} of
      Inr (p, used') \<Rightarrow> False
    | Inl e \<Rightarrow> e = ''Unable to find available port'')"
proof -
  have h: "\<forall>i. smallest_draw i < 2 ^ 53" by (simp add: smallest_draw_def)
  have a: "getRandomPort smallest_draw {} = Inr (5000, {5000})"
    by (simp add: getRandomPort_def getRandomPort_loop.simps [of _ _ 0] random_port_smallest Let_def)
  have b: "case getRandomPort smallest_draw {5000} of
      Inr (p, used') \<Rightarrow> False
    | Inl e \<Rightarrow> e = ''Unable to find available port''"
  proof (cases "getRandomPort smallest_draw {5000}")
    case (Inl e)
    with getRandomPort_range [OF h, of "{5000}"] show ?thesis by simp
  next
    case (Inr pu)
    obtain p u where pu: "pu = (p, u)" by (cases pu)
    with Inr getRandomPort_range [OF h, of "{5000}"]
    have "\<exists>i<100. p = random_port (smallest_draw i)"
      by auto
    then have "p = 5000" by (auto simp: random_port_smallest)
    moreover from Inr pu getRandomPort_fresh [of smallest_draw "{5000}" p u] have "p \<notin> {5000}"
      by simp
    ultimately show ?thesis by simp
  qed
  from h a b show ?thesis by simp
qed

subsection \<open>A container that is not running after its start\<close>

lemma nginx_valid: "validateDockerImage (body_image nginx_request)"
  by (simp add: nginx_request_def validateDockerImage_def imageRegex_test_def name_char_def
      tag_char_def alnum_def)

lemma nginx_port_valid: "validatePort (parseInt env_ok) (appPort_of nginx_request)"
  by (simp add: nginx_request_def validatePort_def env_ok_def appPort_of_def parseInt_example_def)

lemma release_after_alloc:
  assumes "getRandomPort rnd used = Inr (p, u)" and "\<forall>i. rnd i < 2 ^ 53"
  shows "releasePort p u = used"
proof -
  from getRandomPort_fresh [OF assms(1)] have f: "p \<notin> used" "u = insert p used" by simp_all
  from getRandomPort_bounds [OF assms(2) assms(1)] have "p \<noteq> 0" by simp
  with f show ?thesis by (simp add: releasePort_def)
qed

lemma alloc_smallest: "getRandomPort smallest_draw {} = Inr (5000, {5000})"
  by (simp add: getRandomPort_def getRandomPort_loop.simps [of _ _ 0] random_port_smallest Let_def)

text \<open>
  C1, as stated, fails: when the verification finds the container not running, the
  handler answers 500 and builds no record at all, so no deployment with status
  \<^verbatim>\<open>failed\<close> results; the store is as it was (here: empty).
\<close>

theorem failed_start_leaves_no_record:
  "fst (deploy_docker 50 env_not_running nginx_request (initial_state None)) =
     Start_failed ''exec format error'' \<and>
   deployments (fst (snd (deploy_docker 50 env_not_running nginx_request (initial_state None)))) = []"
proof -
  have lim: "checkDeploymentLimit 50 (deployments (initial_state None)) = Inr ()"
    by (simp add: checkDeploymentLimit_def initial_state_def)
  have alloc: "getRandomPort (random env_not_running) (usedPorts (initial_state None)) = Inr (5000, {5000})"
    using alloc_smallest by (simp add: env_not_running_def env_ok_def initial_state_def)
  have v: "validatePort (parseInt env_not_running) (appPort_of nginx_request)"
    using nginx_port_valid by (simp add: env_not_running_def env_ok_def)
  show ?thesis
    using nginx_valid v lim alloc
    by (simp add: deploy_docker_def docker_try_def env_not_running_def env_ok_def
        never_running_def initial_state_def)
qed


text \<open>
  C1, amended. In an image-based creation in which everything up to the verification
  succeeds and the verification reports the container not running, the request fails
  with status 500 and the message \<^verbatim>\<open>Container failed to start\<close> (with the container's
  last 50 log lines, or \<^verbatim>\<open>No logs available\<close>); the state after the request is the
  state before it: no deployment record is created and the used set is the one before
  the allocation; and the last call of the handler is the removal of the container with
  \<^verbatim>\<open>force: true\<close>.
\<close>

theorem failed_start_rollback:
  assumes "validateDockerImage (body_image req)"
    and "validatePort (parseInt env) (appPort_of req)"
    and "length (deployments s) < MAX_DEPLOYMENTS"
    and "\<forall>i. random env i < 2 ^ 53"
    and "getRandomPort (random env) (usedPorts s) = Inr (hostPort, used)"
    and "docker_pull env = Inr ()"
    and "createContainer env = Inr c"
    and "container_start env = Inr ()"
    and "container_inspect env c = Inr False"
  shows "deploy_docker MAX_DEPLOYMENTS env req s =
           (Start_failed (case container_logs env of
                            Inl _ \<Rightarrow> ''No logs available''
                          | Inr logs \<Rightarrow> logs),
            s,
            [DockerPull (the (body_image req)),
             CreateContainer (the (body_image req)) (appPort_of req) hostPort,
             ContainerStart c, ContainerInspect c,
             ContainerLogs c 50, ContainerRemove c True])"
proof -
  have rel: "releasePort hostPort used = usedPorts s"
    by (rule release_after_alloc [OF assms(5) assms(4)])
  have lim: "checkDeploymentLimit MAX_DEPLOYMENTS (deployments s) = Inr ()"
    using assms(3) by (simp add: checkDeploymentLimit_def)
  have body: "docker_try env (the (body_image req)) (appPort_of req) (uuid env) hostPort
                (s\<lparr>usedPorts := used\<rparr>) =
              (Inr (Start_failed (case container_logs env of
                            Inl _ \<Rightarrow> ''No logs available''
                          | Inr logs \<Rightarrow> logs)),
               s,
               [DockerPull (the (body_image req)),
                CreateContainer (the (body_image req)) (appPort_of req) hostPort,
                ContainerStart c, ContainerInspect c,
                ContainerLogs c 50, ContainerRemove c True])"
    using assms(6-9) rel by (simp add: docker_try_def)
  show ?thesis
    using assms(1,2,5) lim body by (simp add: deploy_docker_def)
qed


theorem failed_start_rollback_witness:
  "validateDockerImage (body_image nginx_request) \<and>
   validatePort (parseInt env_not_running) (appPort_of nginx_request) \<and>
   length (deployments (initial_state None)) < 50 \<and>
   (\<forall>i. random env_not_running i < 2 ^ 53) \<and>
   getRandomPort (random env_not_running) (usedPorts (initial_state None)) = Inr (5000, {5000}) \<and>
   container_inspect env_not_running ''c0ffee'' = Inr False \<and>
   deploy_docker 50 env_not_running nginx_request (initial_state None) =
     (Start_failed ''exec format error'', initial_state None,
      [DockerPull ''nginx:alpine'', CreateContainer ''nginx:alpine'' ''80'' 5000,
       ContainerStart ''c0ffee'', ContainerInspect ''c0ffee'',
       ContainerLogs ''c0ffee'' 50, ContainerRemove ''c0ffee'' True])"
proof -
  have h1: "validateDockerImage (body_image nginx_request)" by (rule nginx_valid)
  have h2: "validatePort (parseInt env_not_running) (appPort_of nginx_request)"
    using nginx_port_valid by (simp add: env_not_running_def env_ok_def)
  have h3: "length (deployments (initial_state None)) < 50" by (simp add: initial_state_def)
  have h4: "\<forall>i. random env_not_running i < 2 ^ 53"
    by (simp add: env_not_running_def env_ok_def smallest_draw_def)
  have h5: "getRandomPort (random env_not_running) (usedPorts (initial_state None)) = Inr (5000, {5000})"
    using alloc_smallest by (simp add: env_not_running_def env_ok_def initial_state_def)
  have h6: "docker_pull env_not_running = Inr ()" by (simp add: env_not_running_def env_ok_def)
  have h7: "createContainer env_not_running = Inr ''c0ffee''"
    by (simp add: env_not_running_def env_ok_def)
  have h8: "container_start env_not_running = Inr ()" by (simp add: env_not_running_def env_ok_def)
  have h9: "container_inspect env_not_running ''c0ffee'' = Inr False"
    by (simp add: env_not_running_def never_running_def)
  from failed_start_rollback [OF h1 h2 h3 h4 h5 h6 h7 h8 h9]
  have "deploy_docker 50 env_not_running nginx_request (initial_state None) =
     (Start_failed ''exec format error'', initial_state None,
      [DockerPull ''nginx:alpine'', CreateContainer ''nginx:alpine'' ''80'' 5000,
       ContainerStart ''c0ffee'', ContainerInspect ''c0ffee'',
       ContainerLogs ''c0ffee'' 50, ContainerRemove ''c0ffee'' True])"
    by (simp add: env_not_running_def env_ok_def nginx_request_def appPort_of_def)
  with h1 h2 h3 h4 h5 h9 show ?thesis by simp
qed

subsection \<open>Admission\<close>

text \<open>
  C3, as stated, fails: the image handler (and the git handler) validates the request
  before it checks the limit, so with the store at its maximum a request with an invalid
  image name is rejected with status 400 and \<^verbatim>\<open>Invalid Docker image name\<close>, not with
  the admission error.
\<close>

theorem invalid_request_at_capacity:
  "length (deployments one_deployment) = 1 \<and>
   deploy_docker 1 env_ok bad_image_request one_deployment =
     (Error_json 400 ''Invalid Docker image name'', one_deployment, []) \<and>
   checkDeploymentLimit 1 (deployments one_deployment) =
     Inl ''Deployment limit reached (1). Please delete some deployments first.''"
  by (simp add: one_deployment_def deploy_docker_def bad_image_request_def
      validateDockerImage_def imageRegex_test_def name_char_def tag_char_def alnum_def
      checkDeploymentLimit_def limit_message_def string_of_nat.simps)

text \<open>
  C3, amended. A creation request that arrives when the number of deployments in the
  store is at (or above) the configured maximum is rejected, with no external call made
  and the whole state unchanged (no port allocated, no record created): by the image and
  git handlers with a validation error (status 400) when the request is malformed and
  with the admission error (status 500, the limit message) otherwise, by the Dockerfile
  and test handlers always with the admission error.
\<close>

theorem admission_rejects:
  assumes "MAX_DEPLOYMENTS \<le> length (deployments s)"
  shows "deploy_docker MAX_DEPLOYMENTS env req s =
           (if \<not> validateDockerImage (body_image req)
            then Error_json 400 ''Invalid Docker image name''
            else if \<not> validatePort (parseInt env) (appPort_of req)
            then Error_json 400 ''Invalid port number''
            else Error_json 500 (limit_message MAX_DEPLOYMENTS), s, []) \<and>
         deploy_git MAX_DEPLOYMENTS env req s =
           (if \<not> validateGitRepo (body_repo req)
            then Error_json 400 ''Invalid Git repository URL''
            else if \<not> validatePort (parseInt env) (appPort_of req)
            then Error_json 400 ''Invalid port number''
            else Error_json 500 (limit_message MAX_DEPLOYMENTS), s, []) \<and>
         deploy_dockerfile MAX_DEPLOYMENTS env req s =
           (Error_json 500 (limit_message MAX_DEPLOYMENTS), s, []) \<and>
         deploy_test MAX_DEPLOYMENTS env s =
           (Error_json 500 (limit_message MAX_DEPLOYMENTS), s, [])"
proof -
  have lim: "checkDeploymentLimit MAX_DEPLOYMENTS (deployments s) = Inl (limit_message MAX_DEPLOYMENTS)"
    using assms by (simp add: checkDeploymentLimit_def)
  have a: "deploy_docker MAX_DEPLOYMENTS env req s =
           (if \<not> validateDockerImage (body_image req)
            then Error_json 400 ''Invalid Docker image name''
            else if \<not> validatePort (parseInt env) (appPort_of req)
            then Error_json 400 ''Invalid port number''
            else Error_json 500 (limit_message MAX_DEPLOYMENTS), s, [])"
    by (simp add: deploy_docker_def lim)
  have b: "deploy_git MAX_DEPLOYMENTS env req s =
           (if \<not> validateGitRepo (body_repo req)
            then Error_json 400 ''Invalid Git repository URL''
            else if \<not> validatePort (parseInt env) (appPort_of req)
            then Error_json 400 ''Invalid port number''
            else Error_json 500 (limit_message MAX_DEPLOYMENTS), s, [])"
    by (simp add: deploy_git_def lim)
  have c: "deploy_dockerfile MAX_DEPLOYMENTS env req s =
           (Error_json 500 (limit_message MAX_DEPLOYMENTS), s, [])"
    by (simp add: deploy_dockerfile_def lim)
  have d: "deploy_test MAX_DEPLOYMENTS env s =
           (Error_json 500 (limit_message MAX_DEPLOYMENTS), s, [])"
    by (simp add: deploy_test_def lim)
  from a b c d show ?thesis by (intro conjI)
qed

theorem admission_rejects_witness:
  "(1::nat) \<le> length (deployments one_deployment) \<and>
   deploy_docker 1 env_ok nginx_request one_deployment =
     (Error_json 500 ''Deployment limit reached (1). Please delete some deployments first.'',
      one_deployment, []) \<and>
   deploy_test 1 env_ok one_deployment =
     (Error_json 500 ''Deployment limit reached (1). Please delete some deployments first.'',
      one_deployment, [])"
proof -
  have h: "(1::nat) \<le> length (deployments one_deployment)" by (simp add: one_deployment_def)
  have m: "limit_message 1 = ''Deployment limit reached (1). Please delete some deployments first.''"
    by (simp add: limit_message_def string_of_nat.simps)
  from admission_rejects [OF h, of env_ok nginx_request] nginx_valid nginx_port_valid m h
  show ?thesis by simp
qed

subsection \<open>Deletion attempts every cleanup step\<close>

lemma container_cleanup_facts:
  "fst (container_cleanup env d) =
     (case container_remove env of Inl e \<Rightarrow> [''Container cleanup failed: '' @ e] | Inr _ \<Rightarrow> []) \<and>
   snd (container_cleanup env d) =
     [ContainerStop (dep_container d) 10, ContainerRemove (dep_container d) True]"
  by (simp add: container_cleanup_def split: sum.splits)

lemma tunnel_cleanup_facts:
  "tunnel_cleanup env ident tuns =
     (case map_of tuns ident of
        None \<Rightarrow> (tuns, [], [])
      | Some t \<Rightarrow>
          ((case kill env of Inl e \<Rightarrow> tuns | Inr _ \<Rightarrow> AList.delete ident tuns),
           (case kill env of Inl e \<Rightarrow> [''Tunnel cleanup failed: '' @ e] | Inr _ \<Rightarrow> []),
           [KillProcess (tunnel_process t)]))"
  by (simp add: tunnel_cleanup_def split: sum.splits option.splits)

lemma builddir_cleanup_facts:
  "builddir_cleanup env d =
     (case dep_buildDir d of
        None \<Rightarrow> ([], [])
      | Some b \<Rightarrow>
          if b \<noteq> [] \<and> existsSync env b
          then ((case rmSync env of Inl e \<Rightarrow> [''Build directory cleanup failed: '' @ e] | Inr _ \<Rightarrow> []),
                [RmDir b])
          else ([], []))"
  by (simp add: builddir_cleanup_def split: sum.splits option.splits)

lemma db_cleanup_facts:
  "db_cleanup env ident table =
     (case table of
        None \<Rightarrow> (None, [], [])
      | Some rows \<Rightarrow>
          ((case sql_delete env ident of
              Inl e \<Rightarrow> Some rows
            | Inr _ \<Rightarrow> Some (filter (\<lambda>r. row_id r \<noteq> ident) rows)),
           (case sql_delete env ident of Inl e \<Rightarrow> [''Database deletion failed: '' @ e] | Inr _ \<Rightarrow> []),
           [DbDelete ident]))"
  by (simp add: db_cleanup_def split: sum.splits option.splits)

text \<open>
  C2. For the deletion of an existing deployment, whatever the outcome of each external
  call: the answer is the success answer, with the messages of exactly the steps that
  failed as warnings, in the order of the steps; the container's stop and forced removal
  are called; if a tunnel is registered its process is killed (also when the container
  removal raised), and the registration is removed when the kill did not raise; the
  port of the deployment is released; an existing build directory is removed; the record
  leaves the store; and with a database connection the row's \<^verbatim>\<open>DELETE\<close> is issued.
\<close>

theorem deletion_attempts_every_step:
  assumes "map_of (deployments s) ident = Some d"
  shows "case delete_deployment env ident s of
           (resp, s', tr) \<Rightarrow>
             resp = Deleted
               ((case container_remove env of
                   Inl e \<Rightarrow> [''Container cleanup failed: '' @ e] | Inr _ \<Rightarrow> []) @
                (case map_of (tunnels s) ident of
                   None \<Rightarrow> []
                 | Some t \<Rightarrow>
                     (case kill env of
                        Inl e \<Rightarrow> [''Tunnel cleanup failed: '' @ e] | Inr _ \<Rightarrow> [])) @
                (case dep_buildDir d of
                   None \<Rightarrow> []
                 | Some b \<Rightarrow>
                     if b \<noteq> [] \<and> existsSync env b
                     then (case rmSync env of
                             Inl e \<Rightarrow> [''Build directory cleanup failed: '' @ e] | Inr _ \<Rightarrow> [])
                     else []) @
                (case db s of
                   None \<Rightarrow> []
                 | Some rows \<Rightarrow>
                     (case sql_delete env ident of
                        Inl e \<Rightarrow> [''Database deletion failed: '' @ e] | Inr _ \<Rightarrow> []))) \<and>
             ContainerStop (dep_container d) 10 \<in> set tr \<and>
             ContainerRemove (dep_container d) True \<in> set tr \<and>
             (\<forall>t. map_of (tunnels s) ident = Some t \<longrightarrow>
                  KillProcess (tunnel_process t) \<in> set tr \<and>
                  (kill env = Inr () \<longrightarrow> map_of (tunnels s') ident = None)) \<and>
             (\<forall>p. dep_hostPort d = Some p \<longrightarrow> p \<noteq> 0 \<longrightarrow> usedPorts s' = usedPorts s - {p}) \<and>
             (\<forall>b. dep_buildDir d = Some b \<longrightarrow> b \<noteq> [] \<longrightarrow> existsSync env b \<longrightarrow> RmDir b \<in> set tr) \<and>
             map_of (deployments s') ident = None \<and>
             (\<forall>rows. db s = Some rows \<longrightarrow>
                  DbDelete ident \<in> set tr \<and>
                  (sql_delete env ident = Inr () \<longrightarrow>
                     db s' = Some (filter (\<lambda>r. row_id r \<noteq> ident) rows)))"
proof -
  obtain e1 t1 where c: "container_cleanup env d = (e1, t1)" by (cases "container_cleanup env d")
  obtain tu e2 t2 where t: "tunnel_cleanup env ident (tunnels s) = (tu, e2, t2)"
    by (cases "tunnel_cleanup env ident (tunnels s)")
  obtain e3 t3 where b: "builddir_cleanup env d = (e3, t3)" by (cases "builddir_cleanup env d")
  obtain tb e4 t4 where q: "db_cleanup env ident (db s) = (tb, e4, t4)"
    by (cases "db_cleanup env ident (db s)")
  have r: "delete_deployment env ident s =
      (Deleted (e1 @ e2 @ e3 @ e4),
       \<lparr>deployments = AList.delete ident (deployments s), tunnels = tu,
        usedPorts = port_cleanup d (usedPorts s), db = tb\<rparr>,
       t1 @ t2 @ t3 @ t4)"
    using assms c t b q by (simp add: delete_deployment_def)
  from c container_cleanup_facts [of env d]
  have c1: "e1 = (case container_remove env of
                   Inl e \<Rightarrow> [''Container cleanup failed: '' @ e] | Inr _ \<Rightarrow> [])"
    and c2: "t1 = [ContainerStop (dep_container d) 10, ContainerRemove (dep_container d) True]"
    by simp_all
  from t have t': "(tu, e2, t2) =
     (case map_of (tunnels s) ident of
        None \<Rightarrow> (tunnels s, [], [])
      | Some t \<Rightarrow>
          ((case kill env of Inl e \<Rightarrow> tunnels s | Inr _ \<Rightarrow> AList.delete ident (tunnels s)),
           (case kill env of Inl e \<Rightarrow> [''Tunnel cleanup failed: '' @ e] | Inr _ \<Rightarrow> []),
           [KillProcess (tunnel_process t)]))"
    by (simp add: tunnel_cleanup_facts)
  from b have b': "(e3, t3) =
     (case dep_buildDir d of
        None \<Rightarrow> ([], [])
      | Some b \<Rightarrow>
          if b \<noteq> [] \<and> existsSync env b
          then ((case rmSync env of Inl e \<Rightarrow> [''Build directory cleanup failed: '' @ e] | Inr _ \<Rightarrow> []),
                [RmDir b])
          else ([], []))"
    by (simp add: builddir_cleanup_facts)
  from q have q': "(tb, e4, t4) =
     (case db s of
        None \<Rightarrow> (None, [], [])
      | Some rows \<Rightarrow>
          ((case sql_delete env ident of
              Inl e \<Rightarrow> Some rows
            | Inr _ \<Rightarrow> Some (filter (\<lambda>r. row_id r \<noteq> ident) rows)),
           (case sql_delete env ident of Inl e \<Rightarrow> [''Database deletion failed: '' @ e] | Inr _ \<Rightarrow> []),
           [DbDelete ident]))"
    by (simp add: db_cleanup_facts)
  have g1: "e2 = (case map_of (tunnels s) ident of
                   None \<Rightarrow> []
                 | Some t \<Rightarrow>
                     (case kill env of
                        Inl e \<Rightarrow> [''Tunnel cleanup failed: '' @ e] | Inr _ \<Rightarrow> []))"
    using t' by (simp split: option.splits)
  have g2: "\<forall>t. map_of (tunnels s) ident = Some t \<longrightarrow>
                  KillProcess (tunnel_process t) \<in> set t2 \<and>
                  (kill env = Inr () \<longrightarrow> map_of tu ident = None)"
    using t' by (auto simp: delete_conv')
  have g3: "e3 = (case dep_buildDir d of
                   None \<Rightarrow> []
                 | Some b \<Rightarrow>
                     if b \<noteq> [] \<and> existsSync env b
                     then (case rmSync env of
                             Inl e \<Rightarrow> [''Build directory cleanup failed: '' @ e] | Inr _ \<Rightarrow> [])
                     else [])"
    using b' by (auto split: option.splits if_splits)
  have g4: "\<forall>b. dep_buildDir d = Some b \<longrightarrow> b \<noteq> [] \<longrightarrow> existsSync env b \<longrightarrow> RmDir b \<in> set t3"
    using b' by auto
  have g5: "e4 = (case db s of
                   None \<Rightarrow> []
                 | Some rows \<Rightarrow>
                     (case sql_delete env ident of
                        Inl e \<Rightarrow> [''Database deletion failed: '' @ e] | Inr _ \<Rightarrow> []))"
    using q' by (simp split: option.splits)
  have g6: "\<forall>rows. db s = Some rows \<longrightarrow>
                  DbDelete ident \<in> set t4 \<and>
                  (sql_delete env ident = Inr () \<longrightarrow>
                     tb = Some (filter (\<lambda>r. row_id r \<noteq> ident) rows))"
    using q' by auto
  have g7: "\<forall>p. dep_hostPort d = Some p \<longrightarrow> p \<noteq> 0 \<longrightarrow>
              port_cleanup d (usedPorts s) = usedPorts s - {p}"
    by (simp add: port_cleanup_def releasePort_def)
  have g8: "map_of (AList.delete ident (deployments s)) ident = None"
    by (simp add: delete_conv')
  show ?thesis
    unfolding r using c1 c2 g1 g2 g3 g4 g5 g6 g7 g8 by auto
qed


theorem deletion_attempts_every_step_witness:
  "map_of (deployments with_tunnel) ''0badcafe'' = Some example_deployment \<and>
   container_remove env_remove_fails = Inl ''No such container'' \<and>
   delete_deployment env_remove_fails ''0badcafe'' with_tunnel =
     (Deleted [''Container cleanup failed: No such container''],
      \<lparr>deployments = [], tunnels = [], usedPorts = {}, db = None\<rparr>,
      [ContainerStop ''deadbeef'' 10, ContainerRemove ''deadbeef'' True, KillProcess 4242])"
proof -
  have h: "map_of (deployments with_tunnel) ''0badcafe'' = Some example_deployment"
    by (simp add: with_tunnel_def)
  have e: "container_remove env_remove_fails = Inl ''No such container''"
    by (simp add: env_remove_fails_def)
  have "delete_deployment env_remove_fails ''0badcafe'' with_tunnel =
     (Deleted [''Container cleanup failed: No such container''],
      \<lparr>deployments = [], tunnels = [], usedPorts = {}, db = None\<rparr>,
      [ContainerStop ''deadbeef'' 10, ContainerRemove ''deadbeef'' True, KillProcess 4242])"
    using deletion_attempts_every_step [OF h, of env_remove_fails]
    by (simp add: delete_deployment_def with_tunnel_def env_remove_fails_def env_ok_def
        example_deployment_def container_cleanup_def tunnel_cleanup_def builddir_cleanup_def
        db_cleanup_def port_cleanup_def releasePort_def)
  with h e show ?thesis by simp
qed

subsection \<open>Startup reconciliation\<close>


lemma restore_rows_store:
  "restore_rows env rs (s, tr) = ((s', tr'), b) \<Longrightarrow> map_of (deployments s') k = Some d \<Longrightarrow>
   map_of (deployments s) k = Some d \<or>
   (\<exists>x\<in>set rs. row_id x = k \<and>
      (\<exists>running. container_inspect env (row_container_id x) = Inr running \<and> d = restored x running))"
proof (induction rs arbitrary: s tr)
  case Nil
  then show ?case by simp
next
  case (Cons r rs)
  show ?case
  proof (cases "container_inspect env (row_container_id r)")
    case (Inr running)
    let ?s1 = "s\<lparr>deployments := AList.update (row_id r) (restored r running) (deployments s)\<rparr>"
    from Cons.prems(1) Inr
    have "restore_rows env rs (?s1, tr @ [ContainerInspect (row_container_id r)]) = ((s', tr'), b)"
      by simp
    from Cons.IH [OF this Cons.prems(2)]
    consider "map_of (deployments ?s1) k = Some d"
      | "\<exists>x\<in>set rs. row_id x = k \<and>
          (\<exists>running. container_inspect env (row_container_id x) = Inr running \<and> d = restored x running)"
      by blast
    then show ?thesis
    proof cases
      case 1
      then show ?thesis using Inr by (auto simp: update_conv' split: if_splits)
    next
      case 2
      then show ?thesis by auto
    qed
  next
    case (Inl e)
    show ?thesis
    proof (cases "sql_delete env (row_id r)")
      case del: (Inl e')
      with Inl Cons.prems show ?thesis by simp
    next
      case del: (Inr u)
      let ?s1 = "s\<lparr>db := map_option (filter (\<lambda>x. row_id x \<noteq> row_id r)) (db s)\<rparr>"
      from Cons.prems(1) Inl del
      have "restore_rows env rs (?s1, tr @ [ContainerInspect (row_container_id r), DbDelete (row_id r)])
              = ((s', tr'), b)"
        by simp
      from Cons.IH [OF this Cons.prems(2)] show ?thesis by auto
    qed
  qed
qed






lemma load_example:
  "loadDeploymentsFromDB env_restart (initial_state (Some [stale_row, orphan_row])) =
     (\<lparr>deployments = [(''0badcafe'', restored stale_row False)],
       tunnels = [], usedPorts = {}, db = Some [stale_row]\<rparr>,
      [DbSelect, ContainerInspect ''deadbeef'', ContainerInspect ''f00dfeed'', DbDelete ''5ca1ab1e''])"
  by (simp add: loadDeploymentsFromDB_def initial_state_def env_restart_def env_ok_def
      exited_or_gone_def stale_row_def orphan_row_def delete_ok_def)




subsection \<open>Where the status \<open>stopped\<close> comes from\<close>

text \<open>
  What each operation does to the records of the store: a creation handler leaves the
  records as they are or stores a record with status \<^verbatim>\<open>running\<close>; the tunnel
  continuation changes no status; the deletion removes the record of its id and leaves the
  others; the reconciliation stores \<^verbatim>\<open>stopped\<close> only for a row whose container exists
  and is not running.
\<close>

lemma docker_try_status:
  "docker_try env img appPort deployId hostPort s = (res, s', tr) \<Longrightarrow>
   map_of (deployments s') k = Some d \<Longrightarrow>
   map_of (deployments s) k = Some d \<or> dep_status d = ''running''"
  by (auto simp: docker_try_def Let_def update_conv' split: sum.splits if_splits option.splits)

lemma deploy_docker_status:
  "deploy_docker MAX_DEPLOYMENTS env req s = (resp, s', tr) \<Longrightarrow>
   map_of (deployments s') k = Some d \<Longrightarrow>
   map_of (deployments s) k = Some d \<or> dep_status d = ''running''"
  by (auto simp: deploy_docker_def split: sum.splits if_splits prod.splits
      dest!: docker_try_status [where k = k and d = d])

lemma git_try_status:
  "git_try env rep appPort deployId hostPort buildDir s = (res, s', tr) \<Longrightarrow>
   map_of (deployments s') k = Some d \<Longrightarrow>
   map_of (deployments s) k = Some d \<or> dep_status d = ''running''"
  by (auto simp: git_try_def Let_def update_conv' split: sum.splits if_splits option.splits)

lemma deploy_git_status:
  "deploy_git MAX_DEPLOYMENTS env req s = (resp, s', tr) \<Longrightarrow>
   map_of (deployments s') k = Some d \<Longrightarrow>
   map_of (deployments s) k = Some d \<or> dep_status d = ''running''"
  by (auto simp: deploy_git_def Let_def split: sum.splits if_splits prod.splits
      dest!: git_try_status [where k = k and d = d])

lemma dockerfile_try_status:
  "dockerfile_try env f deployId hostPort s = (res, s', tr) \<Longrightarrow>
   map_of (deployments s') k = Some d \<Longrightarrow>
   map_of (deployments s) k = Some d \<or> dep_status d = ''running''"
  by (auto simp: dockerfile_try_def Let_def update_conv'
      split: sum.splits if_splits option.splits prod.splits promise.splits)

lemma deploy_dockerfile_status:
  "deploy_dockerfile MAX_DEPLOYMENTS env req s = (resp, s', tr) \<Longrightarrow>
   map_of (deployments s') k = Some d \<Longrightarrow>
   map_of (deployments s) k = Some d \<or> dep_status d = ''running''"
  by (auto simp: deploy_dockerfile_def Let_def split: sum.splits if_splits prod.splits option.splits
      dest!: dockerfile_try_status [where k = k and d = d])

lemma test_try_status:
  "test_try env deployId hostPort s = (res, s', tr) \<Longrightarrow>
   map_of (deployments s') k = Some d \<Longrightarrow>
   map_of (deployments s) k = Some d \<or> dep_status d = ''running''"
  by (auto simp: test_try_def Let_def update_conv'
      split: sum.splits if_splits option.splits prod.splits promise.splits)

lemma deploy_test_status:
  "deploy_test MAX_DEPLOYMENTS env s = (resp, s', tr) \<Longrightarrow>
   map_of (deployments s') k = Some d \<Longrightarrow>
   map_of (deployments s) k = Some d \<or> dep_status d = ''running''"
  by (auto simp: deploy_test_def Let_def split: sum.splits if_splits prod.splits option.splits
      dest!: test_try_status [where k = k and d = d])

lemma tunnel_task_status:
  "tunnel_task env hostPort deployId s = (s', tr) \<Longrightarrow>
   map_of (deployments s') k = Some d \<Longrightarrow>
   \<exists>d0. map_of (deployments s) k = Some d0 \<and> dep_status d0 = dep_status d"
  by (auto simp: tunnel_task_def Let_def update_conv'
      split: sum.splits if_splits option.splits prod.splits promise.splits)

lemma delete_deployment_store:
  "delete_deployment env ident s = (resp, s', tr) \<Longrightarrow>
   map_of (deployments s') k = (if k = ident then None else map_of (deployments s) k)"
  by (auto simp: delete_deployment_def delete_conv' split: option.splits prod.splits)

lemma load_status:
  assumes "loadDeploymentsFromDB env s = (s', tr)" and "map_of (deployments s') k = Some d"
    and "dep_status d = ''stopped''"
  shows "map_of (deployments s) k = Some d \<or>
         (\<exists>rows r. db s = Some rows \<and> r \<in> set rows \<and> row_id r = k \<and>
            container_inspect env (row_container_id r) = Inr False)"
proof (cases "db s")
  case None
  with assms show ?thesis by (simp add: loadDeploymentsFromDB_def)
next
  case (Some rows)
  show ?thesis
  proof (cases "sql_select env")
    case (Inl e)
    with Some assms show ?thesis by (simp add: loadDeploymentsFromDB_def)
  next
    case (Inr u)
    obtain s1 tr1 b where run: "restore_rows env rows (s, [DbSelect]) = ((s1, tr1), b)"
      by (metis surj_pair)
    with Some Inr assms(1) have "s1 = s'" by (simp add: loadDeploymentsFromDB_def)
    with run have run': "restore_rows env rows (s, [DbSelect]) = ((s', tr1), b)" by simp
    from restore_rows_store [OF run' assms(2)]
    consider "map_of (deployments s) k = Some d"
      | x running where "x \<in> set rows" "row_id x = k"
          "container_inspect env (row_container_id x) = Inr running" "d = restored x running"
      by blast
    then show ?thesis
    proof cases
      case 1
      then show ?thesis by simp
    next
      case 2
      with assms(3) have "running = False" by (auto simp: restored_def split: if_splits)
      with 2 Some show ?thesis by auto
    qed
  qed
qed


text \<open>
  C8, as stated, fails on both sides: the startup reconciliation stores a record with
  status \<^verbatim>\<open>stopped\<close> for a persisted deployment whose container exists and is not
  running, and the explicit deletion of a running deployment does not set any status,
  it removes the record.
\<close>

theorem reconciliation_produces_stopped:
  "map_option dep_status
     (map_of (deployments (perform 50 env_restart Load_from_db
                 (initial_state (Some [stale_row, orphan_row])))) ''0badcafe'') = Some ''stopped'' \<and>
   map_option dep_status (map_of (deployments one_deployment) ''0badcafe'') = Some ''running'' \<and>
   map_of (deployments (perform 50 env_ok (Delete_deployment ''0badcafe'') one_deployment))
     ''0badcafe'' = None"
proof -
  have a: "map_option dep_status
     (map_of (deployments (perform 50 env_restart Load_from_db
                 (initial_state (Some [stale_row, orphan_row])))) ''0badcafe'') = Some ''stopped''"
    by (simp add: load_example restored_def)
  have b: "map_option dep_status (map_of (deployments one_deployment) ''0badcafe'') = Some ''running''"
    by (simp add: one_deployment_def example_deployment_def)
  have c: "map_of (deployments (perform 50 env_ok (Delete_deployment ''0badcafe'') one_deployment))
     ''0badcafe'' = None"
    by (simp add: delete_deployment_def one_deployment_def container_cleanup_def
        tunnel_cleanup_def builddir_cleanup_def db_cleanup_def split: prod.splits sum.splits)
  from a b c show ?thesis by simp
qed

text \<open>
  C8, amended. Over the operations of the engine (the four creations, the deletion, the
  tunnel continuation, the reconciliation): a record with status \<^verbatim>\<open>stopped\<close> in the
  store after an operation was a record with status \<^verbatim>\<open>stopped\<close> before it, or the
  operation is the startup reconciliation and the record comes from a persisted row
  whose container exists and is not running. The explicit deletion of an id leaves no
  record of that id in the store.
\<close>

theorem stopped_only_by_reconciliation:
  "(map_of (deployments (perform MAX_DEPLOYMENTS env op s)) k = Some d \<longrightarrow>
    dep_status d = ''stopped'' \<longrightarrow>
      (\<exists>d0. map_of (deployments s) k = Some d0 \<and> dep_status d0 = ''stopped'') \<or>
      (op = Load_from_db \<and>
       (\<exists>rows r. db s = Some rows \<and> r \<in> set rows \<and> row_id r = k \<and>
          container_inspect env (row_container_id r) = Inr False))) \<and>
   map_of (deployments (perform MAX_DEPLOYMENTS env (Delete_deployment k) s)) k = None"
proof (intro conjI impI)
  assume d: "map_of (deployments (perform MAX_DEPLOYMENTS env op s)) k = Some d"
    and st: "dep_status d = ''stopped''"
  have nr: "dep_status d \<noteq> ''running''" using st by simp
  show "(\<exists>d0. map_of (deployments s) k = Some d0 \<and> dep_status d0 = ''stopped'') \<or>
      (op = Load_from_db \<and>
       (\<exists>rows r. db s = Some rows \<and> r \<in> set rows \<and> row_id r = k \<and>
          container_inspect env (row_container_id r) = Inr False))"
  proof (cases op)
    case (Deploy_docker req)
    obtain resp s' tr where r: "deploy_docker MAX_DEPLOYMENTS env req s = (resp, s', tr)"
      by (metis surj_pair)
    with d Deploy_docker have "map_of (deployments s') k = Some d" by simp
    from deploy_docker_status [OF r this] nr st show ?thesis by simp
  next
    case (Deploy_git req)
    obtain resp s' tr where r: "deploy_git MAX_DEPLOYMENTS env req s = (resp, s', tr)"
      by (metis surj_pair)
    with d Deploy_git have "map_of (deployments s') k = Some d" by simp
    from deploy_git_status [OF r this] nr st show ?thesis by simp
  next
    case (Deploy_dockerfile req)
    obtain resp s' tr where r: "deploy_dockerfile MAX_DEPLOYMENTS env req s = (resp, s', tr)"
      by (metis surj_pair)
    with d Deploy_dockerfile have "map_of (deployments s') k = Some d" by simp
    from deploy_dockerfile_status [OF r this] nr st show ?thesis by simp
  next
    case Deploy_test
    obtain resp s' tr where r: "deploy_test MAX_DEPLOYMENTS env s = (resp, s', tr)"
      by (metis surj_pair)
    with d Deploy_test have "map_of (deployments s') k = Some d" by simp
    from deploy_test_status [OF r this] nr st show ?thesis by simp
  next
    case (Delete_deployment ident)
    obtain resp s' tr where r: "delete_deployment env ident s = (resp, s', tr)"
      by (metis surj_pair)
    with d Delete_deployment have "map_of (deployments s') k = Some d" by simp
    with delete_deployment_store [OF r, of k] st show ?thesis by (auto split: if_splits)
  next
    case (Tunnel_task hostPort deployId)
    obtain s' tr where r: "tunnel_task env hostPort deployId s = (s', tr)"
      by (metis surj_pair)
    with d Tunnel_task have "map_of (deployments s') k = Some d" by simp
    from tunnel_task_status [OF r this] st show ?thesis by auto
  next
    case Load_from_db
    obtain s' tr where r: "loadDeploymentsFromDB env s = (s', tr)"
      by (metis surj_pair)
    with d Load_from_db have "map_of (deployments s') k = Some d" by simp
    from load_status [OF r this st] st Load_from_db show ?thesis by auto
  qed
next
  obtain resp s' tr where r: "delete_deployment env k s = (resp, s', tr)"
    by (metis surj_pair)
  from delete_deployment_store [OF r, of k] r
  show "map_of (deployments (perform MAX_DEPLOYMENTS env (Delete_deployment k) s)) k = None"
    by simp
qed

theorem stopped_only_by_reconciliation_witness:
  "map_of (deployments (perform 50 env_restart Load_from_db
              (initial_state (Some [stale_row, orphan_row])))) ''0badcafe'' =
     Some (restored stale_row False) \<and>
   dep_status (restored stale_row False) = ''stopped'' \<and>
   (\<exists>rows r. db (initial_state (Some [stale_row, orphan_row])) = Some rows \<and> r \<in> set rows \<and>
      row_id r = ''0badcafe'' \<and> container_inspect env_restart (row_container_id r) = Inr False) \<and>
   map_of (deployments (perform 50 env_restart (Delete_deployment ''0badcafe'')
              (initial_state (Some [stale_row, orphan_row])))) ''0badcafe'' = None"
proof -
  have h1: "map_of (deployments (perform 50 env_restart Load_from_db
              (initial_state (Some [stale_row, orphan_row])))) ''0badcafe'' =
     Some (restored stale_row False)"
    by (simp add: load_example)
  have h2: "dep_status (restored stale_row False) = ''stopped''" by (simp add: restored_def)
  have e: "map_of (deployments (initial_state (Some [stale_row, orphan_row]))) ''0badcafe'' = None"
    by (simp add: initial_state_def)
  from stopped_only_by_reconciliation [of 50 env_restart Load_from_db
      "initial_state (Some [stale_row, orphan_row])" "''0badcafe''" "restored stale_row False"]
    h1 h2 e
  show ?thesis by simp
qed

subsection \<open>The tunnel provisioner settles and never rejects\<close>

text \<open>
  A match found in a text is found in every extension of it, so a run whose whole input
  holds no match saw none on the way.
\<close>

lemma match_here_append: "match_here a = Some u \<Longrightarrow> match_here (a @ b) = Some u"
proof -
  assume m: "match_here a = Some u"
  define r where "r = drop 8 a"
  define h where "h = takeWhile host_char r"
  define t where "t = dropWhile host_char r"
  from m have p: "take 8 a = ''https://''"
    by (auto simp: match_here_def split: if_splits)
  from m p have ht: "h \<noteq> []" "take 18 t = ''.trycloudflare.com''"
    and u: "u = ''https://'' @ h @ ''.trycloudflare.com''"
    by (auto simp: match_here_def Let_def h_def t_def r_def split: if_splits)
  from p have "length (take 8 a) = length ''https://''" by simp
  then have la: "8 \<le> length a" by simp
  have ta: "take 8 (a @ b) = ''https://''" using la p by simp
  have da: "drop 8 (a @ b) = r @ b" using la by (simp add: r_def)
  from ht(2) have tne: "t \<noteq> []" by auto
  then obtain c where c: "c \<in> set r" "\<not> host_char c"
    unfolding t_def by (metis dropWhile_eq_Nil_conv)
  have tw: "takeWhile host_char (r @ b) = h"
    unfolding h_def using c by (metis takeWhile_append1)
  have dw: "dropWhile host_char (r @ b) = t @ b"
    unfolding t_def using c by (metis dropWhile_append1)
  from ht(2) have "length (take 18 t) = length ''.trycloudflare.com''" by simp
  then have lt: "18 \<le> length t" by simp
  have tt: "take 18 (t @ b) = ''.trycloudflare.com''" using lt ht(2) by simp
  show ?thesis
    unfolding match_here_def Let_def da tw dw using ta ht(1) tt u by simp
qed

lemma find_url_append: "find_url (a @ b) = None \<Longrightarrow> find_url a = None"
proof (induction a)
  case Nil
  then show ?case by simp
next
  case (Cons c cs)
  show ?case
  proof (cases "match_here (c # cs)")
    case (Some u)
    from match_here_append [OF this, of b] Cons.prems show ?thesis by simp
  next
    case None
    from Cons.prems have "find_url (cs @ b) = None"
      by (simp split: option.splits)
    with Cons.IH None show ?thesis by simp
  qed
qed


lemma tunnel_event_ok:
  "run_ok run \<Longrightarrow> run_ok (fst (tunnel_event i pid (run, tuns, tr) ev))"
  by (cases ev) (auto simp: run_ok_def resolve_def Let_def split: option.splits promise.splits)

lemma foldl_tunnel_ok:
  "run_ok (fst st) \<Longrightarrow> run_ok (fst (foldl (tunnel_event i pid) st es))"
proof (induction es arbitrary: st)
  case Nil
  then show ?case by simp
next
  case (Cons ev es)
  obtain run tuns tr where st: "st = (run, tuns, tr)" by (cases st)
  with Cons.prems have "run_ok (fst (tunnel_event i pid st ev))"
    by (simp add: tunnel_event_ok)
  from Cons.IH [OF this] show ?case by simp
qed

lemma tunnel_event_settled:
  "run_promise run = Fulfilled v \<Longrightarrow>
   run_promise (fst (tunnel_event i pid (run, tuns, tr) ev)) = Fulfilled v \<and>
   set tr \<subseteq> set (snd (snd (tunnel_event i pid (run, tuns, tr) ev)))"
  by (cases ev) (auto simp: resolve_def Let_def split: option.splits)

lemma foldl_tunnel_settled:
  "run_promise (fst st) = Fulfilled v \<Longrightarrow>
   run_promise (fst (foldl (tunnel_event i pid) st es)) = Fulfilled v \<and>
   set (snd (snd st)) \<subseteq> set (snd (snd (foldl (tunnel_event i pid) st es)))"
proof (induction es arbitrary: st)
  case Nil
  then show ?case by simp
next
  case (Cons ev es)
  obtain run tuns tr where st: "st = (run, tuns, tr)" by (cases st)
  from tunnel_event_settled [of run v i pid tuns tr ev] Cons.prems st
  have a: "run_promise (fst (tunnel_event i pid st ev)) = Fulfilled v"
    and b: "set (snd (snd st)) \<subseteq> set (snd (snd (tunnel_event i pid st ev)))"
    by simp_all
  from Cons.IH [OF a] b show ?case by auto
qed

lemma foldl_tunnel_silent:
  "list_all silent es \<Longrightarrow> find_url (run_output run @ received es) = None \<Longrightarrow>
   foldl (tunnel_event i pid) (run, tuns, tr) es =
     (run\<lparr>run_output := run_output run @ received es\<rparr>, tuns, tr)"
proof (induction es arbitrary: run)
  case Nil
  then show ?case by (simp add: received_def)
next
  case (Cons ev es)
  from Cons.prems(1) have sil: "silent ev" and rest: "list_all silent es" by simp_all
  show ?case
  proof (cases ev)
    case (Data d)
    let ?run1 = "run\<lparr>run_output := run_output run @ d\<rparr>"
    from Cons.prems(2) Data have n: "find_url ((run_output run @ d) @ received es) = None"
      by (simp add: received_def)
    then have "find_url (run_output run @ d) = None" by (rule find_url_append)
    then have step: "tunnel_event i pid (run, tuns, tr) ev = (?run1, tuns, tr)"
      using Data by (simp add: Let_def)
    from n have "find_url (run_output ?run1 @ received es) = None" by simp
    from Cons.IH [OF rest this] step Data show ?thesis by (simp add: received_def)
  next
    case Timeout
    with sil show ?thesis by simp
  next
    case (ProcError e)
    with sil show ?thesis by simp
  next
    case (Exit code)
    from Cons.prems(2) Exit have "find_url (run_output run @ received es) = None"
      by (simp add: received_def)
    from Cons.IH [OF rest this] Exit show ?thesis by (simp add: received_def)
  qed
qed

lemma run_tunnel_timeout:
  assumes "list_all silent es1" and "find_url (received es1) = None"
  shows "run_promise (fst (run_tunnel (es1 @ Timeout # es2) i pid tuns tr)) = Fulfilled None \<and>
         KillProcess pid \<in> set (snd (snd (run_tunnel (es1 @ Timeout # es2) i pid tuns tr)))"
proof -
  let ?run1 = "fresh_run\<lparr>run_output := run_output fresh_run @ received es1\<rparr>"
  from assms(2) have "find_url (run_output fresh_run @ received es1) = None"
    by (simp add: fresh_run_def)
  from foldl_tunnel_silent [OF assms(1) this, of i pid tuns tr]
  have a: "foldl (tunnel_event i pid) (fresh_run, tuns, tr) es1 = (?run1, tuns, tr)" .
  let ?st2 = "tunnel_event i pid (?run1, tuns, tr) Timeout"
  have b: "run_promise (fst ?st2) = Fulfilled None" "KillProcess pid \<in> set (snd (snd ?st2))"
    by (simp_all add: fresh_run_def resolve_def)
  from foldl_tunnel_settled [OF b(1), of i pid es2] b(2)
  have "run_promise (fst (foldl (tunnel_event i pid) ?st2 es2)) = Fulfilled None \<and>
        KillProcess pid \<in> set (snd (snd (foldl (tunnel_event i pid) ?st2 es2)))"
    by auto
  then show ?thesis
    using a by (simp add: run_tunnel_def fresh_run_def)
qed

lemma run_tunnel_error:
  assumes "list_all silent es1" and "find_url (received es1) = None"
  shows "run_promise (fst (run_tunnel (es1 @ ProcError e # es2) i pid tuns tr)) = Fulfilled None"
proof -
  let ?run1 = "fresh_run\<lparr>run_output := run_output fresh_run @ received es1\<rparr>"
  from assms(2) have "find_url (run_output fresh_run @ received es1) = None"
    by (simp add: fresh_run_def)
  from foldl_tunnel_silent [OF assms(1) this, of i pid tuns tr]
  have a: "foldl (tunnel_event i pid) (fresh_run, tuns, tr) es1 = (?run1, tuns, tr)" .
  let ?st2 = "tunnel_event i pid (?run1, tuns, tr) (ProcError e)"
  have b: "run_promise (fst ?st2) = Fulfilled None"
    by (simp add: fresh_run_def resolve_def)
  from foldl_tunnel_settled [OF b, of i pid es2]
  have "run_promise (fst (foldl (tunnel_event i pid) ?st2 es2)) = Fulfilled None"
    by auto
  then show ?thesis
    using a by (simp add: run_tunnel_def fresh_run_def)
qed

lemma run_tunnel_ok: "run_ok (fst (run_tunnel es i pid tuns tr))"
  unfolding run_tunnel_def by (rule foldl_tunnel_ok) (simp add: run_ok_def)

lemma createPublicTunnel_not_rejected:
  "fst (createPublicTunnel env hostPort deployId tuns) \<noteq> Rejected e"
proof (cases "spawn env")
  case (Inl x)
  then show ?thesis by (simp add: createPublicTunnel_def)
next
  case (Inr pid)
  from run_tunnel_ok [of "proc_events env" deployId pid tuns "[SpawnTunnel hostPort]"]
  show ?thesis
    using Inr by (auto simp: createPublicTunnel_def run_ok_def split: prod.splits promise.splits)
qed


lemma deploy_test_response:
  assumes "checkDeploymentLimit MAX_DEPLOYMENTS (deployments s) = Inr ()"
    and "getRandomPort (random env) (usedPorts s) = Inr (p, u)"
    and "docker_pull env = Inr ()" and "createContainer env = Inr c"
    and "container_start env = Inr ()"
  shows "fst (deploy_test MAX_DEPLOYMENTS env s) =
           (case fst (createPublicTunnel env p (uuid env) (tunnels s)) of
              Pending \<Rightarrow> No_response
            | Fulfilled v \<Rightarrow>
                Created (uuid env) (case v of Some t \<Rightarrow> t | None \<Rightarrow> localhost_url p)
            | Rejected e \<Rightarrow> Error_json 500 e)"
  using assms
  by (simp add: deploy_test_def test_try_def Let_def split: prod.splits promise.splits)

lemma deploy_dockerfile_response:
  assumes "checkDeploymentLimit MAX_DEPLOYMENTS (deployments s) = Inr ()"
    and "req_file req = Some f"
    and "getRandomPort (random env) (usedPorts s) = Inr (p, u)"
    and "docker_build env = Inr ()" and "createContainer env = Inr c"
    and "container_start env = Inr ()"
  shows "fst (deploy_dockerfile MAX_DEPLOYMENTS env req s) =
           (case fst (createPublicTunnel env p (uuid env) (tunnels s)) of
              Pending \<Rightarrow> No_response
            | Fulfilled v \<Rightarrow>
                Created (uuid env) (case v of Some t \<Rightarrow> t | None \<Rightarrow> localhost_url p)
            | Rejected e \<Rightarrow> Error_json 500 e)"
  using assms
  by (simp add: deploy_dockerfile_def dockerfile_try_def Let_def split: prod.splits promise.splits)

lemma createPublicTunnel_spawned:
  "spawn env = Inr pid \<Longrightarrow>
   fst (createPublicTunnel env hostPort deployId tuns) =
     run_promise (fst (run_tunnel (proc_events env) deployId pid tuns [SpawnTunnel hostPort])) \<and>
   snd (snd (createPublicTunnel env hostPort deployId tuns)) =
     snd (snd (run_tunnel (proc_events env) deployId pid tuns [SpawnTunnel hostPort]))"
  by (auto simp: createPublicTunnel_def split: prod.splits)

text \<open>
  C4. For every outcome of the spawn and every sequence of events: the promise of
  \<^verbatim>\<open>createPublicTunnel\<close> is never rejected; a spawn that throws gives none; when the
  timer fires before any match and any process error (exits of the process included),
  the process is killed and the result is none; a process error before any match gives
  none; and the promise is settled as soon as the timer is no longer pending, so it
  settles within the timeout. The two handlers that await the tunnel therefore never
  answer with an error because of it: with build, create and start succeeding they
  answer with the created deployment (or are still waiting for the timer).
\<close>

theorem tunnel_provisioning_never_fails:
  "(\<forall>e. fst (createPublicTunnel env hostPort deployId tuns) \<noteq> Rejected e) \<and>
   (isl (spawn env) \<longrightarrow> fst (createPublicTunnel env hostPort deployId tuns) = Fulfilled None) \<and>
   (\<forall>pid es1 es2.
      spawn env = Inr pid \<and> proc_events env = es1 @ Timeout # es2 \<and>
      list_all silent es1 \<and> find_url (received es1) = None \<longrightarrow>
        fst (createPublicTunnel env hostPort deployId tuns) = Fulfilled None \<and>
        KillProcess pid \<in> set (snd (snd (createPublicTunnel env hostPort deployId tuns)))) \<and>
   (\<forall>pid es1 e es2.
      spawn env = Inr pid \<and> proc_events env = es1 @ ProcError e # es2 \<and>
      list_all silent es1 \<and> find_url (received es1) = None \<longrightarrow>
        fst (createPublicTunnel env hostPort deployId tuns) = Fulfilled None) \<and>
   (\<forall>pid.
      spawn env = Inr pid \<longrightarrow>
        run_timer (fst (run_tunnel (proc_events env) deployId pid tuns [SpawnTunnel hostPort])) \<or>
        (\<exists>v. fst (createPublicTunnel env hostPort deployId tuns) = Fulfilled v)) \<and>
   (\<forall>p u c.
      checkDeploymentLimit MAX_DEPLOYMENTS (deployments s) = Inr () \<and>
      getRandomPort (random env) (usedPorts s) = Inr (p, u) \<and>
      docker_pull env = Inr () \<and> createContainer env = Inr c \<and> container_start env = Inr () \<longrightarrow>
        fst (deploy_test MAX_DEPLOYMENTS env s) = No_response \<or>
        (\<exists>link. fst (deploy_test MAX_DEPLOYMENTS env s) = Created (uuid env) link)) \<and>
   (\<forall>p u c f.
      checkDeploymentLimit MAX_DEPLOYMENTS (deployments s) = Inr () \<and> req_file req = Some f \<and>
      getRandomPort (random env) (usedPorts s) = Inr (p, u) \<and>
      docker_build env = Inr () \<and> createContainer env = Inr c \<and> container_start env = Inr () \<longrightarrow>
        fst (deploy_dockerfile MAX_DEPLOYMENTS env req s) = No_response \<or>
        (\<exists>link. fst (deploy_dockerfile MAX_DEPLOYMENTS env req s) = Created (uuid env) link))"
proof (intro conjI allI impI)
  fix e
  show "fst (createPublicTunnel env hostPort deployId tuns) \<noteq> Rejected e"
    by (rule createPublicTunnel_not_rejected)
next
  assume "isl (spawn env)"
  then show "fst (createPublicTunnel env hostPort deployId tuns) = Fulfilled None"
    by (auto simp: createPublicTunnel_def isl_def)
next
  fix pid es1 es2
  assume a: "spawn env = Inr pid \<and> proc_events env = es1 @ Timeout # es2 \<and>
      list_all silent es1 \<and> find_url (received es1) = None"
  from run_tunnel_timeout [of es1 es2 deployId pid tuns "[SpawnTunnel hostPort]"] a
  have r: "run_promise (fst (run_tunnel (proc_events env) deployId pid tuns [SpawnTunnel hostPort]))
             = Fulfilled None"
    "KillProcess pid \<in>
       set (snd (snd (run_tunnel (proc_events env) deployId pid tuns [SpawnTunnel hostPort])))"
    by simp_all
  from r(1) a show "fst (createPublicTunnel env hostPort deployId tuns) = Fulfilled None"
    by (simp add: createPublicTunnel_spawned)
  from r(2) a
  show "KillProcess pid \<in> set (snd (snd (createPublicTunnel env hostPort deployId tuns)))"
    by (simp add: createPublicTunnel_spawned)
next
  fix pid es1 e es2
  assume a: "spawn env = Inr pid \<and> proc_events env = es1 @ ProcError e # es2 \<and>
      list_all silent es1 \<and> find_url (received es1) = None"
  from run_tunnel_error [of es1 e es2 deployId pid tuns "[SpawnTunnel hostPort]"] a
  have "run_promise (fst (run_tunnel (proc_events env) deployId pid tuns [SpawnTunnel hostPort]))
             = Fulfilled None"
    by simp
  with a show "fst (createPublicTunnel env hostPort deployId tuns) = Fulfilled None"
    by (simp add: createPublicTunnel_spawned)
next
  fix pid
  assume a: "spawn env = Inr pid"
  from run_tunnel_ok [of "proc_events env" deployId pid tuns "[SpawnTunnel hostPort]"] a
  show "run_timer (fst (run_tunnel (proc_events env) deployId pid tuns [SpawnTunnel hostPort])) \<or>
        (\<exists>v. fst (createPublicTunnel env hostPort deployId tuns) = Fulfilled v)"
    by (auto simp: createPublicTunnel_spawned run_ok_def split: promise.splits)
next
  fix p u c
  assume a: "checkDeploymentLimit MAX_DEPLOYMENTS (deployments s) = Inr () \<and>
      getRandomPort (random env) (usedPorts s) = Inr (p, u) \<and>
      docker_pull env = Inr () \<and> createContainer env = Inr c \<and> container_start env = Inr ()"
  then have "fst (deploy_test MAX_DEPLOYMENTS env s) =
           (case fst (createPublicTunnel env p (uuid env) (tunnels s)) of
              Pending \<Rightarrow> No_response
            | Fulfilled v \<Rightarrow>
                Created (uuid env) (case v of Some t \<Rightarrow> t | None \<Rightarrow> localhost_url p)
            | Rejected e \<Rightarrow> Error_json 500 e)"
    by (intro deploy_test_response) simp_all
  with createPublicTunnel_not_rejected [of env p "uuid env" "tunnels s"]
  show "fst (deploy_test MAX_DEPLOYMENTS env s) = No_response \<or>
        (\<exists>link. fst (deploy_test MAX_DEPLOYMENTS env s) = Created (uuid env) link)"
    by (cases "fst (createPublicTunnel env p (uuid env) (tunnels s))") auto
next
  fix p u c f
  assume a: "checkDeploymentLimit MAX_DEPLOYMENTS (deployments s) = Inr () \<and> req_file req = Some f \<and>
      getRandomPort (random env) (usedPorts s) = Inr (p, u) \<and>
      docker_build env = Inr () \<and> createContainer env = Inr c \<and> container_start env = Inr ()"
  then have "fst (deploy_dockerfile MAX_DEPLOYMENTS env req s) =
           (case fst (createPublicTunnel env p (uuid env) (tunnels s)) of
              Pending \<Rightarrow> No_response
            | Fulfilled v \<Rightarrow>
                Created (uuid env) (case v of Some t \<Rightarrow> t | None \<Rightarrow> localhost_url p)
            | Rejected e \<Rightarrow> Error_json 500 e)"
    by (intro deploy_dockerfile_response) simp_all
  with createPublicTunnel_not_rejected [of env p "uuid env" "tunnels s"]
  show "fst (deploy_dockerfile MAX_DEPLOYMENTS env req s) = No_response \<or>
        (\<exists>link. fst (deploy_dockerfile MAX_DEPLOYMENTS env req s) = Created (uuid env) link)"
    by (cases "fst (createPublicTunnel env p (uuid env) (tunnels s))") auto
qed


theorem tunnel_provisioning_never_fails_witness:
  "spawn env_timeout = Inr 4242 \<and>
   proc_events env_timeout = [Data ''starting tunnel'', Exit (Some 1)] @ Timeout # [] \<and>
   list_all silent [Data ''starting tunnel'', Exit (Some 1)] \<and>
   find_url (received [Data ''starting tunnel'', Exit (Some 1)]) = None \<and>
   createPublicTunnel env_timeout 5000 ''a1b2c3d4'' [] =
     (Fulfilled None, [], [SpawnTunnel 5000, KillProcess 4242]) \<and>
   isl (spawn env_no_cloudflared) \<and>
   createPublicTunnel env_no_cloudflared 5000 ''a1b2c3d4'' [] = (Fulfilled None, [], [SpawnTunnel 5000]) \<and>
   fst (deploy_test 50 env_timeout (initial_state None)) = Created ''a1b2c3d4'' ''http://localhost:5000''"
proof -
  have h1: "spawn env_timeout = Inr 4242" by (simp add: env_timeout_def env_ok_def)
  have h2: "proc_events env_timeout = [Data ''starting tunnel'', Exit (Some 1)] @ Timeout # []"
    by (simp add: env_timeout_def)
  have h3: "list_all silent [Data ''starting tunnel'', Exit (Some 1)]" by simp
  have h4: "find_url (received [Data ''starting tunnel'', Exit (Some 1)]) = None"
    by (simp add: received_def match_here_def)
  have h5: "isl (spawn env_no_cloudflared)" by (simp add: env_no_cloudflared_def)
  note t = tunnel_provisioning_never_fails [of env_timeout 5000 "''a1b2c3d4''" "[]" 50
      "initial_state None" nginx_request]
  from t h1 h2 h3 h4
  have a: "fst (createPublicTunnel env_timeout 5000 ''a1b2c3d4'' []) = Fulfilled None \<and>
        KillProcess 4242 \<in> set (snd (snd (createPublicTunnel env_timeout 5000 ''a1b2c3d4'' [])))"
    by blast
  have b: "createPublicTunnel env_timeout 5000 ''a1b2c3d4'' [] =
     (Fulfilled None, [], [SpawnTunnel 5000, KillProcess 4242])"
    by (simp add: createPublicTunnel_def run_tunnel_def env_timeout_def env_ok_def
        match_here_def resolve_def)
  have c: "createPublicTunnel env_no_cloudflared 5000 ''a1b2c3d4'' [] =
     (Fulfilled None, [], [SpawnTunnel 5000])"
    by (simp add: createPublicTunnel_def env_no_cloudflared_def)
  have lim: "checkDeploymentLimit 50 (deployments (initial_state None)) = Inr ()"
    by (simp add: checkDeploymentLimit_def initial_state_def)
  have alloc: "getRandomPort (random env_timeout) (usedPorts (initial_state None)) = Inr (5000, {5000})"
    using alloc_smallest by (simp add: env_timeout_def env_ok_def initial_state_def)
  have tun: "tunnels (initial_state None) = []" by (simp add: initial_state_def)
  have d: "fst (deploy_test 50 env_timeout (initial_state None)) =
      Created ''a1b2c3d4'' ''http://localhost:5000''"
    using lim alloc b tun
    by (simp add: deploy_test_def test_try_def env_timeout_def env_ok_def localhost_url_def
        string_of_nat.simps)
  from a h1 h2 h3 h4 h5 b c d show ?thesis by simp
qed

subsection \<open>Which handlers wait for the tunnel\<close>

text \<open>
  The image and git handlers do not look at the tunnel at all: their result is the same
  whatever the spawn and the events of the tunnel process are, and the url of a
  successful answer is the local address of the allocated port.
\<close>

lemma docker_try_detached:
  "docker_try (env\<lparr>spawn := sp, proc_events := es\<rparr>) img appPort deployId hostPort s =
   docker_try env img appPort deployId hostPort s"
  by (simp add: docker_try_def Let_def cong: sum.case_cong option.case_cong if_cong)

lemma deploy_docker_detached:
  "deploy_docker MAX_DEPLOYMENTS (env\<lparr>spawn := sp, proc_events := es\<rparr>) req s =
   deploy_docker MAX_DEPLOYMENTS env req s"
  by (simp add: deploy_docker_def docker_try_detached Let_def cong: sum.case_cong if_cong)

lemma git_try_detached:
  "git_try (env\<lparr>spawn := sp, proc_events := es\<rparr>) rep appPort deployId hostPort buildDir s =
   git_try env rep appPort deployId hostPort buildDir s"
  by (simp add: git_try_def Let_def cong: sum.case_cong option.case_cong if_cong)

lemma deploy_git_detached:
  "deploy_git MAX_DEPLOYMENTS (env\<lparr>spawn := sp, proc_events := es\<rparr>) req s =
   deploy_git MAX_DEPLOYMENTS env req s"
  by (simp add: deploy_git_def git_try_detached Let_def cong: sum.case_cong if_cong)

lemma deploy_docker_created:
  "fst (deploy_docker MAX_DEPLOYMENTS env req s) = Created i link \<Longrightarrow>
   \<exists>hostPort used. getRandomPort (random env) (usedPorts s) = Inr (hostPort, used) \<and>
     link = localhost_url hostPort"
  by (auto simp: deploy_docker_def docker_try_def Let_def
      split: if_splits sum.splits prod.splits option.splits)

lemma deploy_git_created:
  "fst (deploy_git MAX_DEPLOYMENTS env req s) = Created i link \<Longrightarrow>
   \<exists>hostPort used. getRandomPort (random env) (usedPorts s) = Inr (hostPort, used) \<and>
     link = localhost_url hostPort"
  by (auto simp: deploy_git_def git_try_def Let_def
      split: if_splits sum.splits prod.splits option.splits)

lemma tunnel_ready:
  "createPublicTunnel env_tunnel_ready 5000 ''a1b2c3d4'' [] =
     (Fulfilled (Some ''https://quick-fox.trycloudflare.com''),
      [(''a1b2c3d4'', \<lparr>tunnel_url = ''https://quick-fox.trycloudflare.com'', tunnel_process = 4242\<rparr>)],
      [SpawnTunnel 5000])"
  by (simp add: createPublicTunnel_def run_tunnel_def env_tunnel_ready_def env_ok_def
      match_here_def host_char_def resolve_def)

text \<open>
  C5 at the Dockerfile upload (and the test deployment): the handler awaits
  \<^verbatim>\<open>createPublicTunnel\<close> before it answers. With a tunnel process that prints its URL
  the tunnel is spawned inside the handler, the record is built with the tunnel URL, and
  the url of the answer is the tunnel URL, not the local address
  \<^verbatim>\<open>http://localhost:5000\<close>; the image handler, in the same environment, answers
  with the local address.
\<close>

theorem dockerfile_awaits_tunnel:
  "deploy_dockerfile 50 env_tunnel_ready dockerfile_request (initial_state None) =
     (Created ''a1b2c3d4'' ''https://quick-fox.trycloudflare.com'',
      \<lparr>deployments =
         [(''a1b2c3d4'',
           \<lparr>dep_id = ''a1b2c3d4'',
            dep_url = ''https://quick-fox.trycloudflare.com'',
            dep_localUrl = ''http://localhost:5000'',
            dep_container = ''c0ffee'',
            dep_status = ''running'',
            dep_type = ''dockerfile'',
            dep_source = ''uploaded'',
            dep_hasPublicUrl = True,
            dep_hostPort = Some 5000,
            dep_buildDir = None,
            dep_createdAt = ''2024-05-01T10:00:00.000Z''\<rparr>)],
       tunnels =
         [(''a1b2c3d4'',
           \<lparr>tunnel_url = ''https://quick-fox.trycloudflare.com'', tunnel_process = 4242\<rparr>)],
       usedPorts = {5000},
       db = None\<rparr>,
      [DockerBuild ''app-a1b2c3d4'', CreateContainer ''app-a1b2c3d4'' ''8080'' 5000,
       ContainerStart ''c0ffee'', SpawnTunnel 5000, UnlinkLater ''uploads/3f2a9c'']) \<and>
   fst (deploy_test 50 env_tunnel_ready (initial_state None)) =
     Created ''a1b2c3d4'' ''https://quick-fox.trycloudflare.com'' \<and>
   fst (deploy_docker 50 env_tunnel_ready nginx_request (initial_state None)) =
     Created ''a1b2c3d4'' ''http://localhost:5000''"
proof -
  have lim: "checkDeploymentLimit 50 (deployments (initial_state None)) = Inr ()"
    by (simp add: checkDeploymentLimit_def initial_state_def)
  have alloc: "getRandomPort (random env_tunnel_ready) (usedPorts (initial_state None)) = Inr (5000, {5000})"
    using alloc_smallest by (simp add: env_tunnel_ready_def env_ok_def initial_state_def)
  have tun: "tunnels (initial_state None) = []" by (simp add: initial_state_def)
  have url: "localhost_url 5000 = ''http://localhost:5000''"
    by (simp add: localhost_url_def string_of_nat.simps)
  have a: "deploy_dockerfile 50 env_tunnel_ready dockerfile_request (initial_state None) =
     (Created ''a1b2c3d4'' ''https://quick-fox.trycloudflare.com'',
      \<lparr>deployments =
         [(''a1b2c3d4'',
           \<lparr>dep_id = ''a1b2c3d4'',
            dep_url = ''https://quick-fox.trycloudflare.com'',
            dep_localUrl = ''http://localhost:5000'',
            dep_container = ''c0ffee'',
            dep_status = ''running'',
            dep_type = ''dockerfile'',
            dep_source = ''uploaded'',
            dep_hasPublicUrl = True,
            dep_hostPort = Some 5000,
            dep_buildDir = None,
            dep_createdAt = ''2024-05-01T10:00:00.000Z''\<rparr>)],
       tunnels =
         [(''a1b2c3d4'',
           \<lparr>tunnel_url = ''https://quick-fox.trycloudflare.com'', tunnel_process = 4242\<rparr>)],
       usedPorts = {5000},
       db = None\<rparr>,
      [DockerBuild ''app-a1b2c3d4'', CreateContainer ''app-a1b2c3d4'' ''8080'' 5000,
       ContainerStart ''c0ffee'', SpawnTunnel 5000, UnlinkLater ''uploads/3f2a9c''])"
    using lim alloc tun url tunnel_ready
    by (simp add: deploy_dockerfile_def dockerfile_try_def dockerfile_request_def
        env_tunnel_ready_def env_ok_def all_exist_def initial_state_def)
  have b: "fst (deploy_test 50 env_tunnel_ready (initial_state None)) =
     Created ''a1b2c3d4'' ''https://quick-fox.trycloudflare.com''"
    using lim alloc tun url tunnel_ready
    by (simp add: deploy_test_def test_try_def env_tunnel_ready_def env_ok_def initial_state_def)
  have v: "validatePort (parseInt env_tunnel_ready) (appPort_of nginx_request)"
    using nginx_port_valid by (simp add: env_tunnel_ready_def env_ok_def)
  have c: "fst (deploy_docker 50 env_tunnel_ready nginx_request (initial_state None)) =
     Created ''a1b2c3d4'' ''http://localhost:5000''"
    using lim alloc url nginx_valid v
    by (simp add: deploy_docker_def docker_try_def env_tunnel_ready_def env_ok_def
        always_running_def initial_state_def)
  from a b c show ?thesis by simp
qed


subsection \<open>A port released while its deployment stays in the store\<close>

text \<open>
  The image handler stores the record before it awaits the \<^verbatim>\<open>INSERT\<close>. When the
  \<^verbatim>\<open>INSERT\<close> raises, the \<^verbatim>\<open>catch\<close> releases the port and answers 500, and the
  record, with its host port, stays in the store.
\<close>

lemma first_request:
  "deploy_docker 50 env_db_down nginx_request (initial_state (Some [])) =
     (Error_json 500 ''connection is in closed state'',
      \<lparr>deployments = [(''a1b2c3d4'', record_of_first)], tunnels = [], usedPorts = {}, db = Some []\<rparr>,
      [DockerPull ''nginx:alpine'', CreateContainer ''nginx:alpine'' ''80'' 5000,
       ContainerStart ''c0ffee'', ContainerInspect ''c0ffee'', TunnelTask 5000 ''a1b2c3d4'',
       DbInsert ''a1b2c3d4''])"
proof -
  have lim: "checkDeploymentLimit 50 (deployments (initial_state (Some []))) = Inr ()"
    by (simp add: checkDeploymentLimit_def initial_state_def)
  have alloc: "getRandomPort (random env_db_down) (usedPorts (initial_state (Some []))) = Inr (5000, {5000})"
    using alloc_smallest by (simp add: env_db_down_def env_ok_def initial_state_def)
  have url: "localhost_url 5000 = ''http://localhost:5000''"
    by (simp add: localhost_url_def string_of_nat.simps)
  have v: "validatePort (parseInt env_db_down) (appPort_of nginx_request)"
    using nginx_port_valid by (simp add: env_db_down_def env_ok_def)
  have img: "the (body_image nginx_request) = ''nginx:alpine''" "appPort_of nginx_request = ''80''"
    by (simp_all add: nginx_request_def appPort_of_def)
  show ?thesis
    using lim alloc url nginx_valid v img
    by (simp add: deploy_docker_def docker_try_def env_db_down_def env_ok_def
        always_running_def initial_state_def record_of_first_def releasePort_def)
qed

lemma after_db_failure_eq:
  "after_db_failure =
      \<lparr>deployments = [(''a1b2c3d4'', record_of_first)], tunnels = [], usedPorts = {}, db = Some []\<rparr>"
  by (simp add: after_db_failure_def first_request)

lemma second_request:
  "deploy_docker 50 env_second nginx_request after_db_failure =
     (Created ''e5f6a7b8'' ''http://localhost:5000'',
      \<lparr>deployments = [(''a1b2c3d4'', record_of_first), (''e5f6a7b8'', record_of_second)],
       tunnels = [], usedPorts = {5000},
       db = Some [\<lparr>row_id = ''e5f6a7b8'',
                   row_url = ''http://localhost:5000'',
                   row_localUrl = ''http://localhost:5000'',
                   row_container_id = ''c0ffee02'',
                   row_status = ''running'',
                   row_type = ''docker'',
                   row_source = ''nginx:alpine'',
                   row_created_at = ''2024-05-01T10:00:00.000Z''\<rparr>]\<rparr>,
      [DockerPull ''nginx:alpine'', CreateContainer ''nginx:alpine'' ''80'' 5000,
       ContainerStart ''c0ffee02'', ContainerInspect ''c0ffee02'', TunnelTask 5000 ''e5f6a7b8'',
       DbInsert ''e5f6a7b8''])"
proof -
  have lim: "checkDeploymentLimit 50 (deployments after_db_failure) = Inr ()"
    by (simp add: checkDeploymentLimit_def after_db_failure_eq)
  have alloc: "getRandomPort (random env_second) (usedPorts after_db_failure) = Inr (5000, {5000})"
    using alloc_smallest by (simp add: after_db_failure_eq env_second_def env_ok_def)
  have url: "localhost_url 5000 = ''http://localhost:5000''"
    by (simp add: localhost_url_def string_of_nat.simps)
  have v: "validatePort (parseInt env_second) (appPort_of nginx_request)"
    using nginx_port_valid by (simp add: env_second_def env_ok_def)
  have img: "the (body_image nginx_request) = ''nginx:alpine''" "appPort_of nginx_request = ''80''"
    by (simp_all add: nginx_request_def appPort_of_def)
  have body: "docker_try env_second ''nginx:alpine'' ''80'' ''e5f6a7b8'' 5000
                (after_db_failure\<lparr>usedPorts := {5000}\<rparr>) =
     (Inr (Created ''e5f6a7b8'' ''http://localhost:5000''),
      \<lparr>deployments = [(''a1b2c3d4'', record_of_first), (''e5f6a7b8'', record_of_second)],
       tunnels = [], usedPorts = {5000},
       db = Some [\<lparr>row_id = ''e5f6a7b8'',
                   row_url = ''http://localhost:5000'',
                   row_localUrl = ''http://localhost:5000'',
                   row_container_id = ''c0ffee02'',
                   row_status = ''running'',
                   row_type = ''docker'',
                   row_source = ''nginx:alpine'',
                   row_created_at = ''2024-05-01T10:00:00.000Z''\<rparr>]\<rparr>,
      [DockerPull ''nginx:alpine'', CreateContainer ''nginx:alpine'' ''80'' 5000,
       ContainerStart ''c0ffee02'', ContainerInspect ''c0ffee02'', TunnelTask 5000 ''e5f6a7b8'',
       DbInsert ''e5f6a7b8''])"
    using url
    by (simp add: docker_try_def env_second_def env_ok_def always_running_def
        after_db_failure_eq record_of_second_def)
  have u: "uuid env_second = ''e5f6a7b8''" by (simp add: env_second_def)
  show ?thesis
    using lim alloc nginx_valid v img body u
    by (simp add: deploy_docker_def)
qed

text \<open>
  C6 at that input: after the failed \<^verbatim>\<open>INSERT\<close> the store holds a deployment with host
  port 5000 while the used set is empty, so the allocator hands port 5000 out again; a
  second creation that the container engine accepts then leaves two deployments in the
  store with the same host port.
\<close>

theorem port_shared_after_insert_failure:
  "fst (deploy_docker 50 env_db_down nginx_request (initial_state (Some []))) =
     Error_json 500 ''connection is in closed state'' \<and>
   map_option dep_hostPort (map_of (deployments after_db_failure) ''a1b2c3d4'') = Some (Some 5000) \<and>
   usedPorts after_db_failure = {} \<and>
   getRandomPort (random env_second) (usedPorts after_db_failure) = Inr (5000, {5000}) \<and>
   fst (deploy_docker 50 env_second nginx_request after_db_failure) =
     Created ''e5f6a7b8'' ''http://localhost:5000'' \<and>
   map (\<lambda>(i, d). (i, dep_status d, dep_hostPort d))
     (deployments (fst (snd (deploy_docker 50 env_second nginx_request after_db_failure)))) =
     [(''a1b2c3d4'', ''running'', Some 5000), (''e5f6a7b8'', ''running'', Some 5000)]"
proof -
  have a: "fst (deploy_docker 50 env_db_down nginx_request (initial_state (Some []))) =
     Error_json 500 ''connection is in closed state''"
    by (simp add: first_request)
  have b: "map_option dep_hostPort (map_of (deployments after_db_failure) ''a1b2c3d4'') = Some (Some 5000)"
    by (simp add: after_db_failure_eq record_of_first_def)
  have c: "usedPorts after_db_failure = {}" by (simp add: after_db_failure_eq)
  have d: "getRandomPort (random env_second) (usedPorts after_db_failure) = Inr (5000, {5000})"
    using alloc_smallest by (simp add: after_db_failure_eq env_second_def env_ok_def)
  have e: "fst (deploy_docker 50 env_second nginx_request after_db_failure) =
     Created ''e5f6a7b8'' ''http://localhost:5000''"
    by (simp add: second_request)
  have f: "map (\<lambda>(i, d). (i, dep_status d, dep_hostPort d))
     (deployments (fst (snd (deploy_docker 50 env_second nginx_request after_db_failure)))) =
     [(''a1b2c3d4'', ''running'', Some 5000), (''e5f6a7b8'', ''running'', Some 5000)]"
    by (simp add: second_request record_of_first_def record_of_second_def)
  from a b c d e f show ?thesis by (intro conjI)
qed

end
